theory Spec2Isabelle
  imports Complex_Main
begin

section \<open>The GQM aggregation framework of rag-evaluator\<close>

text \<open>
  A shallow embedding of \<^verbatim>\<open>framework/gqm.py\<close>, \<^verbatim>\<open>framework/metric_executor.py\<close>,
  \<^verbatim>\<open>framework/evaluation_data.py\<close> and the configuration classes of \<^verbatim>\<open>config.py\<close>.

  Finite floating-point values are idealised as \<^typ>\<open>real\<close>: rounding, overflow and the
  sign of zero are not modelled. What is modelled of float arithmetic is what the code's
  control flow depends on: a number is a Python \<^verbatim>\<open>float\<close> or a \<^verbatim>\<open>numpy.float64\<close>; the
  true division of a Python float by zero raises \<^verbatim>\<open>ZeroDivisionError\<close>, while that of a
  \<^verbatim>\<open>numpy.float64\<close> returns an infinity or NaN, which then go through the later sums
  and products. Weights come from the configuration and are finite Python floats.
  Exceptions are values of \<^typ>\<open>'e + 'a\<close> with the exception on the left.
  Fields of the dataclasses carry a short prefix of their class, since several classes
  share the field names \<^verbatim>\<open>weight\<close>, \<^verbatim>\<open>value\<close> and \<^verbatim>\<open>metrics\<close>.
\<close>

subsection \<open>Exceptions and Python values\<close>

datatype py_error = ZeroDivisionError | TypeError | ValueError | RuntimeError string

text \<open>The values of a double: a finite one, the two infinities and NaN.\<close>

datatype float64 = Finite real | PosInf | NegInf | NaN

fun fadd :: "float64 \<Rightarrow> float64 \<Rightarrow> float64" where
  "fadd (Finite a) (Finite b) = Finite (a + b)"
| "fadd NaN y = NaN"
| "fadd x NaN = NaN"
| "fadd PosInf NegInf = NaN"
| "fadd NegInf PosInf = NaN"
| "fadd PosInf y = PosInf"
| "fadd x PosInf = PosInf"
| "fadd NegInf y = NegInf"
| "fadd x NegInf = NegInf"

text \<open>Product and quotient of a double with a finite double \<open>w\<close>; \<open>x / 0\<close> as numpy has it.\<close>

fun fmul :: "float64 \<Rightarrow> real \<Rightarrow> float64" where
  "fmul (Finite a) w = Finite (a * w)"
| "fmul NaN w = NaN"
| "fmul PosInf w = (if w > 0 then PosInf else if w < 0 then NegInf else NaN)"
| "fmul NegInf w = (if w > 0 then NegInf else if w < 0 then PosInf else NaN)"

fun fdiv :: "float64 \<Rightarrow> real \<Rightarrow> float64" where
  "fdiv (Finite a) w =
     (if w \<noteq> 0 then Finite (a / w)
      else if a > 0 then PosInf else if a < 0 then NegInf else NaN)"
| "fdiv NaN w = NaN"
| "fdiv PosInf w = (if w < 0 then NegInf else PosInf)"
| "fdiv NegInf w = (if w < 0 then PosInf else NegInf)"

text \<open>
  A number at run time: its value and whether it is a \<^verbatim>\<open>numpy.float64\<close> (else a Python
  \<^verbatim>\<open>float\<close>). An operation with a \<^verbatim>\<open>numpy.float64\<close> operand yields a
  \<^verbatim>\<open>numpy.float64\<close>.
\<close>

datatype number = Number (is_numpy: bool) (float_value: float64)

abbreviation PyFloat :: "real \<Rightarrow> number" where
  "PyFloat x \<equiv> Number False (Finite x)"

abbreviation NpFloat :: "real \<Rightarrow> number" where
  "NpFloat x \<equiv> Number True (Finite x)"

definition num_add :: "number \<Rightarrow> number \<Rightarrow> number" where
  "num_add a b = Number (is_numpy a \<or> is_numpy b) (fadd (float_value a) (float_value b))"

text \<open>\<^verbatim>\<open>x * weight\<close> for a weight of the configuration.\<close>

definition times_weight :: "number \<Rightarrow> real \<Rightarrow> number" where
  "times_weight x w = Number (is_numpy x) (fmul (float_value x) w)"

text \<open>\<^verbatim>\<open>sum(...)\<close>: the terms are added from the left to the integer 0.\<close>

definition py_sum :: "number list \<Rightarrow> number" where
  "py_sum xs = foldl num_add (PyFloat 0) xs"

text \<open>
  \<^verbatim>\<open>a / b\<close> for a sum of weights \<open>b\<close>: a Python float divided by zero raises, a
  \<^verbatim>\<open>numpy.float64\<close> divided by zero is an infinity or NaN (and a warning).
\<close>

definition py_truediv :: "number \<Rightarrow> real \<Rightarrow> py_error + number" where
  "py_truediv a b =
     (if b = 0 \<and> \<not> is_numpy a then Inl ZeroDivisionError
      else Inr (Number (is_numpy a) (fdiv (float_value a) b)))"

text \<open>
  A comprehension or generator whose element expression may raise: the elements are
  evaluated from left to right and the first exception leaves the comprehension.
\<close>

fun traverse :: "('a \<Rightarrow> py_error + 'b) \<Rightarrow> 'a list \<Rightarrow> py_error + 'b list" where
  "traverse f [] = Inr []"
| "traverse f (x # xs) =
     (case f x of
        Inl e \<Rightarrow> Inl e
      | Inr y \<Rightarrow> (case traverse f xs of Inl e \<Rightarrow> Inl e | Inr ys \<Rightarrow> Inr (y # ys)))"

text \<open>JSON-shaped data: the serialised result and the per-test-case breakdowns.\<close>

datatype json =
    JNull
  | JBool bool
  | JNum number
  | JStr string
  | JList "json list"
  | JObj "(string \<times> json) list"

subsection \<open>The result tree (gqm.py, lines 18--75)\<close>

record MetricResult =
  mr_metric_id :: string
  mr_value :: number
  mr_weight :: real
  mr_individual_scores :: "json list option"

definition has_details :: "MetricResult \<Rightarrow> bool" where
  "has_details m = (mr_individual_scores m \<noteq> None)"

record QuestionResult =
  qr_question_text :: string
  qr_metrics :: "MetricResult list"
  qr_weight :: real

text \<open>\<^verbatim>\<open>QuestionResult.score\<close>: the division is not guarded.\<close>

definition QuestionResult_score :: "QuestionResult \<Rightarrow> py_error + number" where
  "QuestionResult_score self =
     (if qr_metrics self = [] then Inr (PyFloat 0)
      else
        let total_weight = sum_list (map mr_weight (qr_metrics self));
            weighted_sum = py_sum (map (\<lambda>metric. times_weight (mr_value metric) (mr_weight metric))
                                     (qr_metrics self))
        in py_truediv weighted_sum total_weight)"

record GoalResult =
  gr_goal_name :: string
  gr_questions :: "QuestionResult list"
  gr_weight :: real

text \<open>
  \<^verbatim>\<open>GoalResult.score\<close>: \<^verbatim>\<open>question.score\<close> is evaluated for every question while the
  weighted sum is built, before the guard on the total weight is looked at, so an
  exception of a question's score leaves the goal's score as well.
\<close>

definition GoalResult_score :: "GoalResult \<Rightarrow> py_error + number" where
  "GoalResult_score self =
     (if gr_questions self = [] then Inr (PyFloat 0)
      else
        let total_weight = sum_list (map qr_weight (gr_questions self))
        in case traverse (\<lambda>question. map_sum id (\<lambda>s. times_weight s (qr_weight question))
                                       (QuestionResult_score question))
                  (gr_questions self) of
             Inl e \<Rightarrow> Inl e
           | Inr terms \<Rightarrow>
               let weighted_sum = py_sum terms
               in if total_weight > 0 then py_truediv weighted_sum total_weight else Inr (PyFloat 0))"

record EvaluationResult =
  er_goals :: "GoalResult list"

definition EvaluationResult_score :: "EvaluationResult \<Rightarrow> py_error + number" where
  "EvaluationResult_score self =
     (if er_goals self = [] then Inr (PyFloat 0)
      else
        let total_weight = sum_list (map gr_weight (er_goals self))
        in case traverse (\<lambda>goal. map_sum id (\<lambda>s. times_weight s (gr_weight goal)) (GoalResult_score goal))
                  (er_goals self) of
             Inl e \<Rightarrow> Inl e
           | Inr terms \<Rightarrow>
               let weighted_sum = py_sum terms
               in if total_weight > 0 then py_truediv weighted_sum total_weight else Inr (PyFloat 0))"

subsection \<open>Configuration (config.py, lines 10--24)\<close>

text \<open>
  \<^verbatim>\<open>QuestionConfig.metrics\<close> is a dict from metric identifier to weight; it is iterated in
  insertion order, so it is an association list here. \<^verbatim>\<open>test_case_generation\<close> maps the
  name of a question type to its parameters, of which the code reads the count.
\<close>

record QuestionConfig =
  qc_text :: string
  qc_weight :: real
  qc_metrics :: "(string \<times> real) list"

record GoalConfig =
  gc_name :: string
  gc_weight :: real
  gc_questions :: "QuestionConfig list"

record EvaluationConfig =
  goals :: "GoalConfig list"
  test_case_generation :: "(string \<times> nat option) list"

subsection \<open>Evaluation data (evaluation-data classes, constants.py, adapters/langchain.py)\<close>

datatype QuestionType = SIMPLE | COMPLEX | DISTRACTING | SITUATIONAL | DOUBLE | CONVERSATIONAL

text \<open>\<^verbatim>\<open>QuestionType(s)\<close>: the enum member with that value; \<^verbatim>\<open>ValueError\<close> is \<open>None\<close>.\<close>

definition QuestionType_of :: "string \<Rightarrow> QuestionType option" where
  "QuestionType_of s =
     (if s = ''simple'' then Some SIMPLE
      else if s = ''complex'' then Some COMPLEX
      else if s = ''distracting'' then Some DISTRACTING
      else if s = ''situational'' then Some SITUATIONAL
      else if s = ''double'' then Some DOUBLE
      else if s = ''conversational'' then Some CONVERSATIONAL
      else None)"

type_synonym document = string

record TestCase =
  tc_question :: string
  tc_ground_truth :: string
  tc_question_type :: QuestionType
  tc_entities :: "string list"

record TestCaseResult =
  tr_query :: string
  tr_generated_answer :: string
  tr_retrieved_documents :: "document list"
  tr_ground_truth :: string
  tr_entities :: "string list"
  tr_question_type :: QuestionType

record EvaluationData =
  test_case_results :: "TestCaseResult list"

record RAGResult =
  rag_query :: string
  rag_answer :: string
  rag_retrieved_documents :: "document list"

subsection \<open>The metric dispatcher (MetricExecutor, constants.py lines 15--30)\<close>

datatype MetricId =
    CONTEXT_PRECISION | CONTEXT_RECALL | CONTEXT_RELEVANCE | CONTEXT_ENTITIES_RECALL
  | FAITHFULNESS | FACTUAL_CONSISTENCY | ANSWER_RELEVANCE | BERTSCORE | ANSWER_CORRECTNESS
  | SEMANTIC_DIVERSITY | ATTRIBUTION_SCORE | ANSWER_COMPLETENESS | SELF_CONSISTENCY
  | MULTI_HOP_REASONING | CONTEXT_UTILIZATION

text \<open>\<^verbatim>\<open>MetricId(metric_id)\<close>: the enum member with that value; \<^verbatim>\<open>ValueError\<close> is \<open>None\<close>.\<close>

definition MetricId_of :: "string \<Rightarrow> MetricId option" where
  "MetricId_of s =
     (if s = ''context_precision'' then Some CONTEXT_PRECISION
      else if s = ''context_recall'' then Some CONTEXT_RECALL
      else if s = ''context_relevance'' then Some CONTEXT_RELEVANCE
      else if s = ''context_entities_recall'' then Some CONTEXT_ENTITIES_RECALL
      else if s = ''faithfulness'' then Some FAITHFULNESS
      else if s = ''factual_consistency'' then Some FACTUAL_CONSISTENCY
      else if s = ''answer_relevance'' then Some ANSWER_RELEVANCE
      else if s = ''bertscore'' then Some BERTSCORE
      else if s = ''answer_correctness'' then Some ANSWER_CORRECTNESS
      else if s = ''semantic_diversity'' then Some SEMANTIC_DIVERSITY
      else if s = ''attribution_score'' then Some ATTRIBUTION_SCORE
      else if s = ''answer_completeness'' then Some ANSWER_COMPLETENESS
      else if s = ''self_consistency'' then Some SELF_CONSISTENCY
      else if s = ''multi_hop_reasoning'' then Some MULTI_HOP_REASONING
      else if s = ''context_utilization'' then Some CONTEXT_UTILIZATION
      else None)"

text \<open>
  What a metric function returns: \<^verbatim>\<open>None\<close> (no data), a bare number, or a dict that may
  carry the keys \<^verbatim>\<open>"score"\<close> and \<^verbatim>\<open>"individual_scores"\<close>.
\<close>

datatype py_value =
    PyNone
  | PyNumber number
  | PyDict (dict_score: "number option") (dict_individual_scores: "json list option")

text \<open>
  The fifteen metric functions of \<^verbatim>\<open>metrics/\<close> call language models and embedding
  services, so what they compute is a parameter of the model: for every identifier, the
  flag \<^verbatim>\<open>return_detailed_results\<close> and the batch, either the exception raised, or no
  data, or the overall score with the list of detailed results. Every one of the fifteen
  ends in the same statements,
  \<^verbatim>\<open>if get_config().return_detailed_results: return {"score": overall_score, "individual_scores": detailed_results}\<close>
  and then \<^verbatim>\<open>return overall_score\<close>; \<open>metric_function\<close> is the function with this end.
  The overall score is a Python float in most of them and a \<^verbatim>\<open>numpy.float64\<close> where it
  is a \<^verbatim>\<open>np.mean\<close>.
\<close>

datatype metric_outcome = NoData | Scored number "json list"

type_synonym metric_functions = "MetricId \<Rightarrow> bool \<Rightarrow> EvaluationData \<Rightarrow> py_error + metric_outcome"

definition metric_function ::
  "metric_functions \<Rightarrow> bool \<Rightarrow> MetricId \<Rightarrow> EvaluationData \<Rightarrow> py_error + py_value" where
  "metric_function mf return_detailed_results metric_enum evaluation_data =
     (case mf metric_enum return_detailed_results evaluation_data of
        Inl e \<Rightarrow> Inl e
      | Inr NoData \<Rightarrow> Inr PyNone
      | Inr (Scored overall_score detailed_results) \<Rightarrow>
          if return_detailed_results
          then Inr (PyDict (Some overall_score) (Some detailed_results))
          else Inr (PyNumber overall_score))"

datatype log_record =
    Unknown_metric_ID string
  | Executor_failed_to_execute_metric string py_error
  | Failed_to_execute_metric string py_error
  | Failed_to_process_test_case string py_error

text \<open>
  \<^verbatim>\<open>MetricExecutor.execute_metric\<close>, with the records it hands to \<^verbatim>\<open>logger.error\<close>.
  The table \<^verbatim>\<open>metric_functions\<close> has an entry for each of the fifteen members, so the
  branch for a missing entry is never taken.
\<close>

definition execute_metric ::
  "metric_functions \<Rightarrow> bool \<Rightarrow> string \<Rightarrow> EvaluationData \<Rightarrow> py_value \<times> log_record list" where
  "execute_metric mf return_detailed_results metric_id evaluation_data =
     (case MetricId_of metric_id of
        None \<Rightarrow> (PyNumber (PyFloat 0), [Unknown_metric_ID metric_id])
      | Some metric_enum \<Rightarrow>
          (case metric_function mf return_detailed_results metric_enum evaluation_data of
             Inr result \<Rightarrow> (result, [])
           | Inl e \<Rightarrow> (PyNumber (PyFloat 0), [Executor_failed_to_execute_metric metric_id e])))"

subsection \<open>The framework and its cache (gqm.py, lines 113--269)\<close>

record CachedMetricResult =
  cm_metric_id :: string
  cm_value :: number
  cm_individual_scores :: "json list option"

text \<open>
  The state of a \<^verbatim>\<open>GQMFramework\<close> object: its configuration and its cache. Two fields are
  instrumentation: \<open>executed\<close> lists the identifiers passed to
  \<^verbatim>\<open>MetricExecutor.execute_metric\<close>, one entry for each call and in call order, and
  \<open>error_log\<close> lists the records passed to \<^verbatim>\<open>logger.error\<close>.
\<close>

record GQMFramework =
  config :: EvaluationConfig
  metric_cache :: "string \<rightharpoonup> CachedMetricResult"
  executed :: "string list"
  error_log :: "log_record list"

definition GQMFramework_init :: "EvaluationConfig \<Rightarrow> GQMFramework" where
  "GQMFramework_init cfg =
     \<lparr>config = cfg, metric_cache = Map.empty, executed = [], error_log = []\<rparr>"

text \<open>
  \<^verbatim>\<open>float(value)\<close> for the values a metric function returns: the Python float with the
  value of the number.
\<close>

fun py_float :: "py_value \<Rightarrow> py_error + number" where
  "py_float (PyNumber x) = Inr (Number False (float_value x))"
| "py_float (PyDict s i) = Inl TypeError"
| "py_float PyNone = Inl TypeError"

fun is_dict :: "py_value \<Rightarrow> bool" where
  "is_dict (PyDict s i) = True"
| "is_dict _ = False"

text \<open>
  Lines 198--203 of \<^verbatim>\<open>_get_or_execute_metric\<close>: the score and the breakdown taken from
  the returned value; \<open>return_detailed_results\<close> is the flag of the active configuration,
  the same that the metric functions read. The score of a dict is stored as it is, without
  \<^verbatim>\<open>float()\<close>.
\<close>

definition score_and_details ::
  "bool \<Rightarrow> py_value \<Rightarrow> py_error + number \<times> json list option" where
  "score_and_details return_detailed_results v =
     (if is_dict v \<and> return_detailed_results
      then Inr (case dict_score v of None \<Rightarrow> PyFloat 0 | Some s \<Rightarrow> s, dict_individual_scores v)
      else (case py_float v of Inl e \<Rightarrow> Inl e | Inr score \<Rightarrow> Inr (score, None)))"

text \<open>
  \<^verbatim>\<open>GQMFramework._get_or_execute_metric\<close>. The result \<open>Inr None\<close> is the Python
  \<^verbatim>\<open>return None\<close>; \<open>Inl e\<close> is the exception that the handler logs and raises again.
  The state is returned in every case: an exception does not undo what was done before.
\<close>

definition get_or_execute_metric ::
  "metric_functions \<Rightarrow> bool \<Rightarrow> string \<Rightarrow> real \<Rightarrow> EvaluationData \<Rightarrow> GQMFramework
     \<Rightarrow> (py_error + MetricResult option) \<times> GQMFramework" where
  "get_or_execute_metric metric_functions return_detailed_results metric_id weight evaluation_data self =
     (case metric_cache self metric_id of
        Some cached_result \<Rightarrow>
          (Inr (Some \<lparr>mr_metric_id = metric_id, mr_value = cm_value cached_result,
                      mr_weight = weight,
                      mr_individual_scores = cm_individual_scores cached_result\<rparr>), self)
      | None \<Rightarrow>
          (case execute_metric metric_functions return_detailed_results metric_id evaluation_data of
             (v, logged) \<Rightarrow>
               let self1 = self\<lparr>executed := executed self @ [metric_id],
                                error_log := error_log self @ logged\<rparr>
               in if v = PyNone then (Inr None, self1)
                  else
                    (case score_and_details return_detailed_results v of
                       Inl e \<Rightarrow>
                         (Inl e, self1\<lparr>error_log := error_log self1 @ [Failed_to_execute_metric metric_id e]\<rparr>)
                     | Inr (score, individual_scores) \<Rightarrow>
                         (Inr (Some \<lparr>mr_metric_id = metric_id, mr_value = score, mr_weight = weight,
                                     mr_individual_scores = individual_scores\<rparr>),
                          self1\<lparr>metric_cache := (metric_cache self1)(metric_id \<mapsto>
                                   \<lparr>cm_metric_id = metric_id, cm_value = score,
                                    cm_individual_scores = individual_scores\<rparr>)\<rparr>))))"

text \<open>
  The loop of \<^verbatim>\<open>evaluate_question\<close> over \<^verbatim>\<open>question_config.metrics.items()\<close>;
  \<open>metric_results\<close> is the list built so far.
\<close>

fun evaluate_question_loop ::
  "metric_functions \<Rightarrow> bool \<Rightarrow> EvaluationData \<Rightarrow> (string \<times> real) list \<Rightarrow> MetricResult list
     \<Rightarrow> GQMFramework \<Rightarrow> (py_error + MetricResult list) \<times> GQMFramework" where
  "evaluate_question_loop mf d evaluation_data [] metric_results self = (Inr metric_results, self)"
| "evaluate_question_loop mf d evaluation_data ((metric_id, weight) # rest) metric_results self =
     (case get_or_execute_metric mf d metric_id weight evaluation_data self of
        (Inl e, self') \<Rightarrow> (Inl e, self')
      | (Inr None, self') \<Rightarrow> evaluate_question_loop mf d evaluation_data rest metric_results self'
      | (Inr (Some metric_result), self') \<Rightarrow>
          evaluate_question_loop mf d evaluation_data rest (metric_results @ [metric_result]) self')"

definition evaluate_question ::
  "metric_functions \<Rightarrow> bool \<Rightarrow> EvaluationData \<Rightarrow> QuestionConfig \<Rightarrow> GQMFramework
     \<Rightarrow> (py_error + QuestionResult) \<times> GQMFramework" where
  "evaluate_question mf d evaluation_data question_config self =
     (case evaluate_question_loop mf d evaluation_data (qc_metrics question_config) [] self of
        (Inl e, self') \<Rightarrow> (Inl e, self')
      | (Inr metric_results, self') \<Rightarrow>
          (Inr \<lparr>qr_question_text = qc_text question_config, qr_metrics = metric_results,
                qr_weight = qc_weight question_config\<rparr>, self'))"

text \<open>
  The loops of \<^verbatim>\<open>evaluate_goal\<close> and \<^verbatim>\<open>evaluate\<close> have one shape:
  \<^verbatim>\<open>for x in xs: result = f(x); results.append(result)\<close>, where an exception of
  \<^verbatim>\<open>f\<close> leaves the loop.
\<close>

fun for_each ::
  "('a \<Rightarrow> 's \<Rightarrow> (py_error + 'b) \<times> 's) \<Rightarrow> 'a list \<Rightarrow> 'b list \<Rightarrow> 's \<Rightarrow> (py_error + 'b list) \<times> 's" where
  "for_each f [] results self = (Inr results, self)"
| "for_each f (x # xs) results self =
     (case f x self of
        (Inl e, self') \<Rightarrow> (Inl e, self')
      | (Inr result, self') \<Rightarrow> for_each f xs (results @ [result]) self')"

definition evaluate_goal ::
  "metric_functions \<Rightarrow> bool \<Rightarrow> EvaluationData \<Rightarrow> GoalConfig \<Rightarrow> GQMFramework
     \<Rightarrow> (py_error + GoalResult) \<times> GQMFramework" where
  "evaluate_goal mf d evaluation_data goal_config self =
     (case for_each (evaluate_question mf d evaluation_data) (gc_questions goal_config) [] self of
        (Inl e, self') \<Rightarrow> (Inl e, self')
      | (Inr question_results, self') \<Rightarrow>
          (Inr \<lparr>gr_goal_name = gc_name goal_config, gr_questions = question_results,
                gr_weight = gc_weight goal_config\<rparr>, self'))"

text \<open>
  The second half of \<^verbatim>\<open>evaluate\<close> (lines 262--269): the goals of the framework's own
  configuration are evaluated on the batch.
\<close>

definition evaluate_goals ::
  "metric_functions \<Rightarrow> bool \<Rightarrow> EvaluationData \<Rightarrow> GQMFramework
     \<Rightarrow> (py_error + EvaluationResult) \<times> GQMFramework" where
  "evaluate_goals mf d evaluation_data self =
     (case for_each (evaluate_goal mf d evaluation_data) (goals (config self)) [] self of
        (Inl e, self') \<Rightarrow> (Inl e, self')
      | (Inr goal_results, self') \<Rightarrow> (Inr \<lparr>er_goals = goal_results\<rparr>, self'))"

subsection \<open>Running the test cases (gqm.py, lines 145--174)\<close>

text \<open>
  The RAG system under test is external and may keep state between queries: its
  \<^verbatim>\<open>query\<close> method is a parameter, a function from the system's state and the question to
  the outcome (a result, or the exception raised) and the new state. \<open>rs_queried\<close> is
  instrumentation: the arguments of the calls of \<^verbatim>\<open>query\<close>, in call order.
\<close>

record 'rs RAGSystem =
  rs_state :: 'rs
  rs_queried :: "string list"

type_synonym 'rs query_method = "'rs \<Rightarrow> string \<Rightarrow> (py_error + RAGResult) \<times> 'rs"

definition rag_system_query ::
  "'rs query_method \<Rightarrow> string \<Rightarrow> 'rs RAGSystem \<Rightarrow> (py_error + RAGResult) \<times> 'rs RAGSystem" where
  "rag_system_query query q rag_system =
     (case query (rs_state rag_system) q of
        (outcome, s') \<Rightarrow> (outcome, \<lparr>rs_state = s', rs_queried = rs_queried rag_system @ [q]\<rparr>))"

fun test_rag_system_loop ::
  "'rs query_method \<Rightarrow> TestCase list \<Rightarrow> TestCaseResult list \<Rightarrow> 'rs RAGSystem \<Rightarrow> GQMFramework
     \<Rightarrow> TestCaseResult list \<times> 'rs RAGSystem \<times> GQMFramework" where
  "test_rag_system_loop query [] results rag_system self =
     (results, rag_system, self)"
| "test_rag_system_loop query (test_case # rest) results rag_system self =
     (case rag_system_query query (tc_question test_case) rag_system of
        (Inr rag_result, rag_system') \<Rightarrow>
          test_rag_system_loop query rest
            (results @
               [\<lparr>tr_query = tc_question test_case,
                 tr_generated_answer = rag_answer rag_result,
                 tr_retrieved_documents = rag_retrieved_documents rag_result,
                 tr_ground_truth = tc_ground_truth test_case,
                 tr_entities = tc_entities test_case,
                 tr_question_type = tc_question_type test_case\<rparr>])
            rag_system' self
      | (Inl e, rag_system') \<Rightarrow>
          test_rag_system_loop query rest
            (results @
               [\<lparr>tr_query = tc_question test_case,
                 tr_generated_answer = [],
                 tr_retrieved_documents = [],
                 tr_ground_truth = tc_ground_truth test_case,
                 tr_entities = tc_entities test_case,
                 tr_question_type = tc_question_type test_case\<rparr>])
            rag_system'
            (self\<lparr>error_log := error_log self @ [Failed_to_process_test_case (tc_question test_case) e]\<rparr>))"

definition test_rag_system ::
  "'rs query_method \<Rightarrow> TestCase list \<Rightarrow> 'rs RAGSystem \<Rightarrow> GQMFramework
     \<Rightarrow> EvaluationData \<times> 'rs RAGSystem \<times> GQMFramework" where
  "test_rag_system query test_cases rag_system self =
     (case test_rag_system_loop query test_cases [] rag_system self of
        (results, rag_system', self') \<Rightarrow>
          (\<lparr>test_case_results = results\<rparr>, rag_system', self'))"

text \<open>
  \<^verbatim>\<open>GQMFramework.evaluate\<close>. Between the two phases the code unloads the RAG system and
  sleeps; both touch only the caller's RAG system object, which \<^verbatim>\<open>evaluate\<close> does not
  return, and are left out.
\<close>

definition evaluate ::
  "metric_functions \<Rightarrow> bool \<Rightarrow> 'rs query_method \<Rightarrow> TestCase list \<Rightarrow> 'rs RAGSystem \<Rightarrow> GQMFramework
     \<Rightarrow> (py_error + EvaluationResult) \<times> GQMFramework" where
  "evaluate mf d query test_cases rag_system self =
     (case test_rag_system query test_cases rag_system self of
        (evaluation_data, rag_system', self') \<Rightarrow> evaluate_goals mf d evaluation_data self')"

subsection \<open>The pipeline (pipeline.py, lines 15--74)\<close>

text \<open>
  An \<^verbatim>\<open>EvaluationPipeline\<close> keeps its configuration and builds one framework in its
  constructor. (The constructor also reads the Pinecone settings and creates the Gemini
  client; the model is that of a pipeline whose construction succeeded.)
\<close>

record EvaluationPipeline =
  pl_config :: EvaluationConfig
  framework :: GQMFramework

definition EvaluationPipeline_init :: "EvaluationConfig \<Rightarrow> EvaluationPipeline" where
  "EvaluationPipeline_init cfg = \<lparr>pl_config = cfg, framework = GQMFramework_init cfg\<rparr>"

text \<open>
  \<^verbatim>\<open>generate_test_cases\<close>: the loop over \<^verbatim>\<open>test_case_generation\<close> collects the known
  question types and their counts (the default count is 1; an unknown name is logged and
  skipped); without any known type \<^verbatim>\<open>ValueError\<close> is raised. The question generator
  itself is external and a parameter: from the types, the counts and the flag
  \<^verbatim>\<open>force_regenerate\<close> to the test cases or the exception it raises.
\<close>

type_synonym question_generator =
  "QuestionType list \<Rightarrow> (QuestionType \<rightharpoonup> nat) \<Rightarrow> bool \<Rightarrow> py_error + TestCase list"

fun question_types_loop ::
  "(string \<times> nat option) list \<Rightarrow> QuestionType list \<Rightarrow> (QuestionType \<rightharpoonup> nat)
     \<Rightarrow> QuestionType list \<times> (QuestionType \<rightharpoonup> nat)" where
  "question_types_loop [] question_types counts_per_type = (question_types, counts_per_type)"
| "question_types_loop ((question_type_str, count) # rest) question_types counts_per_type =
     (case QuestionType_of question_type_str of
        None \<Rightarrow> question_types_loop rest question_types counts_per_type
      | Some question_type \<Rightarrow>
          question_types_loop rest (question_types @ [question_type])
            (counts_per_type(question_type \<mapsto> (case count of None \<Rightarrow> 1 | Some c \<Rightarrow> c))))"

definition generate_test_cases ::
  "question_generator \<Rightarrow> bool \<Rightarrow> EvaluationPipeline \<Rightarrow> py_error + TestCase list" where
  "generate_test_cases generate_questions force_regenerate self =
     (case question_types_loop (test_case_generation (pl_config self)) [] Map.empty of
        (question_types, counts_per_type) \<Rightarrow>
          if question_types = [] then Inl ValueError
          else generate_questions question_types counts_per_type force_regenerate)"

text \<open>
  \<^verbatim>\<open>EvaluationPipeline.evaluate\<close>: the test cases are generated when none are given; the
  framework evaluates; then the overall score is read for the log line, so that an
  exception of \<^verbatim>\<open>result.score\<close> leaves \<^verbatim>\<open>evaluate\<close> in place of the result. The
  framework object keeps what the call did to it in every case.
\<close>

definition EvaluationPipeline_evaluate ::
  "metric_functions \<Rightarrow> bool \<Rightarrow> 'rs query_method \<Rightarrow> question_generator \<Rightarrow> 'rs RAGSystem
     \<Rightarrow> TestCase list option \<Rightarrow> bool \<Rightarrow> EvaluationPipeline
     \<Rightarrow> (py_error + EvaluationResult) \<times> EvaluationPipeline" where
  "EvaluationPipeline_evaluate mf d query generate_questions rag_system test_cases
       force_regenerate_questions self =
     (case (case test_cases of
              None \<Rightarrow> generate_test_cases generate_questions force_regenerate_questions self
            | Some given \<Rightarrow> Inr given) of
        Inl e \<Rightarrow> (Inl e, self)
      | Inr cases \<Rightarrow>
          (case evaluate mf d query cases rag_system (framework self) of
             (Inl e, framework') \<Rightarrow> (Inl e, self\<lparr>framework := framework'\<rparr>)
           | (Inr result, framework') \<Rightarrow>
               (case EvaluationResult_score result of
                  Inl e \<Rightarrow> (Inl e, self\<lparr>framework := framework'\<rparr>)
                | Inr score \<Rightarrow> (Inr result, self\<lparr>framework := framework'\<rparr>))))"

subsection \<open>Serialisation (gqm.py, lines 77--106)\<close>

text \<open>
  \<^verbatim>\<open>EvaluationResult.to_dict\<close> is one nested dict display; its three comprehension
  levels are three functions here. The entries of a dict display are evaluated in the
  order written, so a score is computed before the list that follows it.
\<close>

definition metric_to_dict :: "MetricResult \<Rightarrow> json" where
  "metric_to_dict metric =
     JObj ([(''id'', JStr (mr_metric_id metric)),
            (''value'', JNum (mr_value metric)),
            (''weight'', JNum (PyFloat (mr_weight metric)))]
           @ (if has_details metric
              then [(''individual_scores'', JList (the (mr_individual_scores metric)))]
              else []))"

definition question_to_dict :: "QuestionResult \<Rightarrow> py_error + json" where
  "question_to_dict question =
     (case QuestionResult_score question of
        Inl e \<Rightarrow> Inl e
      | Inr score \<Rightarrow>
          Inr (JObj [(''text'', JStr (qr_question_text question)),
                     (''score'', JNum score),
                     (''weight'', JNum (PyFloat (qr_weight question))),
                     (''metrics'', JList (map metric_to_dict (qr_metrics question)))]))"

definition goal_to_dict :: "GoalResult \<Rightarrow> py_error + json" where
  "goal_to_dict goal =
     (case GoalResult_score goal of
        Inl e \<Rightarrow> Inl e
      | Inr score \<Rightarrow>
          (case traverse question_to_dict (gr_questions goal) of
             Inl e \<Rightarrow> Inl e
           | Inr questions \<Rightarrow>
               Inr (JObj [(''name'', JStr (gr_goal_name goal)),
                          (''score'', JNum score),
                          (''weight'', JNum (PyFloat (gr_weight goal))),
                          (''questions'', JList questions)])))"

definition to_dict :: "EvaluationResult \<Rightarrow> py_error + json" where
  "to_dict self =
     (case EvaluationResult_score self of
        Inl e \<Rightarrow> Inl e
      | Inr score \<Rightarrow>
          (case traverse goal_to_dict (er_goals self) of
             Inl e \<Rightarrow> Inl e
           | Inr goal_dicts \<Rightarrow>
               Inr (JObj [(''overall_score'', JNum score), (''goals'', JList goal_dicts)])))"

section \<open>Notions used to state the properties\<close>

subsection \<open>What a run does to the framework\<close>

text \<open>
  \<open>computed\<close> is what the computation of a metric contributes when it is run on the batch:
  \<open>Inr None\<close> when the metric reports no data, the normalised pair of score and breakdown
  otherwise, or the exception of the normalisation.
\<close>

definition computed ::
  "metric_functions \<Rightarrow> bool \<Rightarrow> EvaluationData \<Rightarrow> string \<Rightarrow> py_error + (number \<times> json list option) option" where
  "computed mf d evaluation_data metric_id =
     (case execute_metric mf d metric_id evaluation_data of
        (v, logged) \<Rightarrow>
          if v = PyNone then Inr None
          else (case score_and_details d v of Inl e \<Rightarrow> Inl e | Inr p \<Rightarrow> Inr (Some p)))"

text \<open>
  \<open>run_rel s s'\<close> relates the framework before and after any part of a run on one batch:
  the configuration is kept; no cache entry is changed or removed; a new entry holds what
  the metric computes on the batch; a metric that is cached at the start is not executed;
  and a metric whose computation yields a pair is executed once when its entry appears,
  and not otherwise.
\<close>

definition run_rel ::
  "metric_functions \<Rightarrow> bool \<Rightarrow> EvaluationData \<Rightarrow> GQMFramework \<Rightarrow> GQMFramework \<Rightarrow> bool" where
  "run_rel mf d evaluation_data s s' \<longleftrightarrow>
     config s' = config s \<and>
     (\<forall>i cr. metric_cache s i = Some cr \<longrightarrow> metric_cache s' i = Some cr) \<and>
     (\<forall>i cr. metric_cache s i = None \<and> metric_cache s' i = Some cr \<longrightarrow>
        computed mf d evaluation_data i = Inr (Some (cm_value cr, cm_individual_scores cr))) \<and>
     (\<forall>i. metric_cache s i \<noteq> None \<longrightarrow> count_list (executed s') i = count_list (executed s) i) \<and>
     (\<forall>i p. computed mf d evaluation_data i = Inr (Some p) \<longrightarrow>
        count_list (executed s') i =
          count_list (executed s) i + (if metric_cache s i = None \<and> metric_cache s' i \<noteq> None then 1 else 0))"

text \<open>The value and the breakdown of a \<^verbatim>\<open>MetricResult\<close> are those of the cache entry.\<close>

definition metric_from_cache :: "GQMFramework \<Rightarrow> MetricResult \<Rightarrow> bool" where
  "metric_from_cache s mr \<longleftrightarrow>
     (case metric_cache s (mr_metric_id mr) of
        None \<Rightarrow> False
      | Some cr \<Rightarrow> mr_value mr = cm_value cr \<and> mr_individual_scores mr = cm_individual_scores cr)"

text \<open>
  A reference to the metric yields a \<^verbatim>\<open>MetricResult\<close> in a run that starts in \<open>s0\<close>:
  the metric is cached already, or its computation returns something other than \<^verbatim>\<open>None\<close>.
\<close>

definition produces ::
  "metric_functions \<Rightarrow> bool \<Rightarrow> EvaluationData \<Rightarrow> GQMFramework \<Rightarrow> string \<Rightarrow> bool" where
  "produces mf d evaluation_data s0 i \<longleftrightarrow>
     metric_cache s0 i \<noteq> None \<or> fst (execute_metric mf d i evaluation_data) \<noteq> PyNone"

text \<open>
  A \<^verbatim>\<open>QuestionResult\<close> mirrors its configuration: text and weight are the configured
  ones, and its metrics are the configured references that satisfy \<open>P\<close>, in the configured
  order and with the configured weights, each carrying the cached value.
\<close>

definition question_ok ::
  "(string \<Rightarrow> bool) \<Rightarrow> GQMFramework \<Rightarrow> QuestionConfig \<Rightarrow> QuestionResult \<Rightarrow> bool" where
  "question_ok P s qc qr \<longleftrightarrow>
     qr_question_text qr = qc_text qc \<and> qr_weight qr = qc_weight qc \<and>
     map (\<lambda>mr. (mr_metric_id mr, mr_weight mr)) (qr_metrics qr) = filter (\<lambda>(i, w). P i) (qc_metrics qc) \<and>
     list_all (metric_from_cache s) (qr_metrics qr)"

definition goal_ok ::
  "(string \<Rightarrow> bool) \<Rightarrow> GQMFramework \<Rightarrow> GoalConfig \<Rightarrow> GoalResult \<Rightarrow> bool" where
  "goal_ok P s gc gr \<longleftrightarrow>
     gr_goal_name gr = gc_name gc \<and> gr_weight gr = gc_weight gc \<and>
     list_all2 (question_ok P s) (gc_questions gc) (gr_questions gr)"

subsection \<open>The weighted average of the specification\<close>

text \<open>
  The specification's \<open>aggregate(s, w) = sum(s_i * w_i) / sum(w_i)\<close>, with
  \<open>aggregate([], []) = 0\<close> and \<open>0\<close> when the weights sum to zero. The argument is the
  list of pairs of a score and its weight. \<open>weighted_average\<close> is the quotient of real
  numbers; \<open>number_average\<close> is the same quotient in the arithmetic of run-time numbers,
  where a score may be a \<^verbatim>\<open>numpy.float64\<close>, an infinity or NaN. A number is finite
  when its value is a real, which \<open>number_real\<close> reads.
\<close>

definition finite_number :: "number \<Rightarrow> bool" where
  "finite_number x = (case float_value x of Finite a \<Rightarrow> True | _ \<Rightarrow> False)"

definition number_real :: "number \<Rightarrow> real" where
  "number_real x = (case float_value x of Finite a \<Rightarrow> a | _ \<Rightarrow> 0)"

definition number_average :: "(number \<times> real) list \<Rightarrow> number" where
  "number_average sw =
     (let weighted_sum = py_sum (map (\<lambda>(s, w). times_weight s w) sw)
      in Number (is_numpy weighted_sum) (fdiv (float_value weighted_sum) (sum_list (map snd sw))))"

definition weighted_average :: "(real \<times> real) list \<Rightarrow> real" where
  "weighted_average sw =
     (if sw = [] \<or> sum_list (map snd sw) = 0 then 0
      else sum_list (map (\<lambda>(s, w). s * w) sw) / sum_list (map snd sw))"

subsection \<open>The outcomes of the queries\<close>

text \<open>
  The outcomes of querying the RAG system for the given questions, one after the other,
  starting in state \<open>s\<close>; and the record that the specification asks for a test case
  whose query had the given outcome: answer and documents of the result, or both empty
  when the query raised.
\<close>

fun query_outcomes :: "'rs query_method \<Rightarrow> 'rs \<Rightarrow> string list \<Rightarrow> (py_error + RAGResult) list" where
  "query_outcomes query s [] = []"
| "query_outcomes query s (q # qs) =
     (case query s q of (outcome, s') \<Rightarrow> outcome # query_outcomes query s' qs)"

definition recorded :: "TestCase \<Rightarrow> py_error + RAGResult \<Rightarrow> TestCaseResult" where
  "recorded tc outcome =
     \<lparr>tr_query = tc_question tc,
      tr_generated_answer = (case outcome of Inr r \<Rightarrow> rag_answer r | Inl e \<Rightarrow> []),
      tr_retrieved_documents = (case outcome of Inr r \<Rightarrow> rag_retrieved_documents r | Inl e \<Rightarrow> []),
      tr_ground_truth = tc_ground_truth tc,
      tr_entities = tc_entities tc,
      tr_question_type = tc_question_type tc\<rparr>"

text \<open>The \<^verbatim>\<open>MetricResult\<close> of a failed metric: the score 0.0 and no breakdown.\<close>

definition zero_metric :: "string \<Rightarrow> real \<Rightarrow> MetricResult" where
  "zero_metric metric_id weight =
     \<lparr>mr_metric_id = metric_id, mr_value = PyFloat 0, mr_weight = weight,
      mr_individual_scores = None\<rparr>"

subsection \<open>Reading the serialised document\<close>

text \<open>
  The entry of a JSON object under a key, read as a finite number or as a list; the pairs of
  recorded value and recorded weight of a list of children; and the consistency of a
  node: its recorded score is the weighted average of what its children record. A
  document is consistent when the root, every goal and every question are.
\<close>

fun field :: "string \<Rightarrow> json \<Rightarrow> json option" where
  "field k (JObj kvs) = map_of kvs k"
| "field k _ = None"

definition number_field :: "string \<Rightarrow> json \<Rightarrow> real option" where
  "number_field k j =
     (case field k j of
        Some (JNum x) \<Rightarrow> if finite_number x then Some (number_real x) else None
      | _ \<Rightarrow> None)"

definition list_field :: "string \<Rightarrow> json \<Rightarrow> json list" where
  "list_field k j = (case field k j of Some (JList xs) \<Rightarrow> xs | _ \<Rightarrow> [])"

definition recorded_pairs :: "string \<Rightarrow> json list \<Rightarrow> (real \<times> real) list option" where
  "recorded_pairs value_key children =
     those (map (\<lambda>child. case (number_field value_key child, number_field ''weight'' child) of
                          (Some v, Some w) \<Rightarrow> Some (v, w)
                        | _ \<Rightarrow> None) children)"

definition node_consistent :: "string \<Rightarrow> string \<Rightarrow> string \<Rightarrow> json \<Rightarrow> bool" where
  "node_consistent score_key children_key value_key node =
     (case (number_field score_key node, recorded_pairs value_key (list_field children_key node)) of
        (Some s, Some sw) \<Rightarrow> s = weighted_average sw
      | _ \<Rightarrow> False)"

definition document_consistent :: "json \<Rightarrow> bool" where
  "document_consistent doc \<longleftrightarrow>
     node_consistent ''overall_score'' ''goals'' ''score'' doc \<and>
     list_all (\<lambda>goal. node_consistent ''score'' ''questions'' ''score'' goal \<and>
                       list_all (node_consistent ''score'' ''metrics'' ''value'') (list_field ''questions'' goal))
       (list_field ''goals'' doc)"

subsection \<open>Concrete inputs\<close>

text \<open>
  The scenario of the specification: one goal \<open>G\<close> of weight 1 with one question \<open>Q1\<close> of
  weight 1 whose metrics are \<open>m1\<close> with weight 1 and \<open>m2\<close> with weight 0.5; \<open>m1\<close> scores 0.8
  and \<open>m2\<close> scores 0.4.
\<close>

definition scenario_question :: "string \<Rightarrow> string \<Rightarrow> QuestionResult" where
  "scenario_question m1 m2 =
     \<lparr>qr_question_text = ''Q1'',
      qr_metrics = [\<lparr>mr_metric_id = m1, mr_value = PyFloat 0.8, mr_weight = 1, mr_individual_scores = None\<rparr>,
                    \<lparr>mr_metric_id = m2, mr_value = PyFloat 0.4, mr_weight = 0.5, mr_individual_scores = None\<rparr>],
      qr_weight = 1\<rparr>"

definition scenario_goal :: "string \<Rightarrow> string \<Rightarrow> GoalResult" where
  "scenario_goal m1 m2 =
     \<lparr>gr_goal_name = ''G'', gr_questions = [scenario_question m1 m2], gr_weight = 1\<rparr>"

definition scenario_result :: "string \<Rightarrow> string \<Rightarrow> EvaluationResult" where
  "scenario_result m1 m2 = \<lparr>er_goals = [scenario_goal m1 m2]\<rparr>"

definition scenario_config :: "string \<Rightarrow> string \<Rightarrow> EvaluationConfig" where
  "scenario_config m1 m2 =
     \<lparr>goals = [\<lparr>gc_name = ''G'', gc_weight = 1,
                 gc_questions = [\<lparr>qc_text = ''Q1'', qc_weight = 1,
                                  qc_metrics = [(m1, 1), (m2, 0.5)]\<rparr>]\<rparr>],
      test_case_generation = []\<rparr>"

text \<open>
  Metric functions for the concrete runs below: faithfulness scores 0.8, bertscore 0.4,
  multi-hop reasoning has no data, answer relevance raises, answer correctness scores the
  \<^verbatim>\<open>numpy.float64\<close> 0.6 with one detailed result, and every other metric scores 0.5.
\<close>

definition example_metrics :: metric_functions where
  "example_metrics k return_detailed_results evaluation_data =
     (if k = FAITHFULNESS then Inr (Scored (PyFloat 0.8) [])
      else if k = BERTSCORE then Inr (Scored (PyFloat 0.4) [])
      else if k = MULTI_HOP_REASONING then Inr NoData
      else if k = ANSWER_RELEVANCE then Inl (RuntimeError ''malformed response'')
      else if k = ANSWER_CORRECTNESS
        then Inr (Scored (NpFloat 0.6)
                    (if return_detailed_results
                     then [JObj [(''query'', JStr ''q''), (''score'', JNum (PyFloat 0.6))]] else []))
      else Inr (Scored (PyFloat 0.5) []))"

definition no_test_cases :: EvaluationData where
  "no_test_cases = \<lparr>test_case_results = []\<rparr>"

text \<open>A goal whose only question has the weight \<open>-1\<close>.\<close>

definition negative_weight_goal :: GoalResult where
  "negative_weight_goal =
     \<lparr>gr_goal_name = ''G'',
      gr_questions =
        [\<lparr>qr_question_text = ''Q'',
          qr_metrics = [\<lparr>mr_metric_id = ''faithfulness'', mr_value = PyFloat 0.8, mr_weight = 1,
                         mr_individual_scores = None\<rparr>],
          qr_weight = - 1\<rparr>],
      gr_weight = 1\<rparr>"

text \<open>The configuration whose run yields that goal.\<close>

definition negative_weight_config :: EvaluationConfig where
  "negative_weight_config =
     \<lparr>goals = [\<lparr>gc_name = ''G'', gc_weight = 1,
                 gc_questions = [\<lparr>qc_text = ''Q'', qc_weight = - 1,
                                  qc_metrics = [(''faithfulness'', 1)]\<rparr>]\<rparr>],
      test_case_generation = []\<rparr>"

text \<open>A configuration whose only question gives its only metric the weight 0.\<close>

definition zero_weight_config :: EvaluationConfig where
  "zero_weight_config =
     \<lparr>goals = [\<lparr>gc_name = ''G'', gc_weight = 1,
                 gc_questions = [\<lparr>qc_text = ''Q'', qc_weight = 1,
                                  qc_metrics = [(''faithfulness'', 0)]\<rparr>]\<rparr>],
      test_case_generation = []\<rparr>"

definition zero_weight_question :: QuestionResult where
  "zero_weight_question =
     \<lparr>qr_question_text = ''Q'',
      qr_metrics = [\<lparr>mr_metric_id = ''faithfulness'', mr_value = PyFloat 0.8, mr_weight = 0,
                     mr_individual_scores = None\<rparr>],
      qr_weight = 1\<rparr>"

definition zero_weight_goal :: GoalResult where
  "zero_weight_goal =
     \<lparr>gr_goal_name = ''G'', gr_questions = [zero_weight_question], gr_weight = 1\<rparr>"

definition zero_weight_result :: EvaluationResult where
  "zero_weight_result = \<lparr>er_goals = [zero_weight_goal]\<rparr>"

text \<open>
  A RAG system that counts its queries and raises at the second one, and three test cases.
\<close>

definition example_query :: "nat query_method" where
  "example_query n q =
     (if n = 1 then (Inl (RuntimeError ''timeout''), Suc n)
      else (Inr \<lparr>rag_query = q, rag_answer = ''an answer'', rag_retrieved_documents = [''doc'']\<rparr>, Suc n))"

definition example_test_cases :: "TestCase list" where
  "example_test_cases =
     [\<lparr>tc_question = ''q0'', tc_ground_truth = ''t0'', tc_question_type = SIMPLE, tc_entities = []\<rparr>,
      \<lparr>tc_question = ''q1'', tc_ground_truth = ''t1'', tc_question_type = COMPLEX, tc_entities = [''e'']\<rparr>,
      \<lparr>tc_question = ''q2'', tc_ground_truth = ''t2'', tc_question_type = DOUBLE, tc_entities = []\<rparr>]"

definition example_rag_system :: "nat RAGSystem" where
  "example_rag_system = \<lparr>rs_state = 0, rs_queried = []\<rparr>"

text \<open>
  A configuration in which two questions reference the same two metrics, one of which
  (multi-hop reasoning) has no data; the run of \<^verbatim>\<open>evaluate\<close> on it from a new
  framework, and the result tree of that run.
\<close>

definition no_data_config :: EvaluationConfig where
  "no_data_config =
     \<lparr>goals = [\<lparr>gc_name = ''G'', gc_weight = 1,
                 gc_questions =
                   [\<lparr>qc_text = ''Q1'', qc_weight = 1,
                     qc_metrics = [(''multi_hop_reasoning'', 1), (''faithfulness'', 2)]\<rparr>,
                    \<lparr>qc_text = ''Q2'', qc_weight = 1,
                     qc_metrics = [(''faithfulness'', 3), (''multi_hop_reasoning'', 1)]\<rparr>]\<rparr>],
      test_case_generation = []\<rparr>"

definition no_data_run :: "(py_error + EvaluationResult) \<times> GQMFramework" where
  "no_data_run =
     evaluate example_metrics False example_query example_test_cases example_rag_system
       (GQMFramework_init no_data_config)"

definition no_data_result :: EvaluationResult where
  "no_data_result =
     \<lparr>er_goals = [\<lparr>gr_goal_name = ''G'',
              gr_questions =
                [\<lparr>qr_question_text = ''Q1'',
                  qr_metrics = [\<lparr>mr_metric_id = ''faithfulness'', mr_value = PyFloat 0.8, mr_weight = 2, mr_individual_scores = None\<rparr>],
                  qr_weight = 1\<rparr>,
                 \<lparr>qr_question_text = ''Q2'',
                  qr_metrics = [\<lparr>mr_metric_id = ''faithfulness'', mr_value = PyFloat 0.8, mr_weight = 3, mr_individual_scores = None\<rparr>],
                  qr_weight = 1\<rparr>],
              gr_weight = 1\<rparr>]\<rparr>"

text \<open>
  A configuration whose question references multi-hop reasoning, which has no data, and
  a second metric with the weight 0: faithfulness, or answer correctness, whose score is a
  \<^verbatim>\<open>numpy.float64\<close>; and the question results of the runs.
\<close>

definition no_data_zero_weight_config :: "string \<Rightarrow> EvaluationConfig" where
  "no_data_zero_weight_config second_metric =
     \<lparr>goals = [\<lparr>gc_name = ''G'', gc_weight = 1,
                 gc_questions = [\<lparr>qc_text = ''Q'', qc_weight = 1,
                                  qc_metrics = [(''multi_hop_reasoning'', 1), (second_metric, 0)]\<rparr>]\<rparr>],
      test_case_generation = []\<rparr>"

definition no_data_zero_weight_question :: "string \<Rightarrow> number \<Rightarrow> json list option \<Rightarrow> QuestionResult" where
  "no_data_zero_weight_question second_metric score details =
     \<lparr>qr_question_text = ''Q'',
      qr_metrics = [\<lparr>mr_metric_id = second_metric, mr_value = score, mr_weight = 0,
                     mr_individual_scores = details\<rparr>],
      qr_weight = 1\<rparr>"

definition no_data_zero_weight_result :: "string \<Rightarrow> number \<Rightarrow> json list option \<Rightarrow> EvaluationResult" where
  "no_data_zero_weight_result second_metric score details =
     \<lparr>er_goals = [\<lparr>gr_goal_name = ''G'',
                    gr_questions = [no_data_zero_weight_question second_metric score details],
                    gr_weight = 1\<rparr>]\<rparr>"

text \<open>
  Two successive calls of \<^verbatim>\<open>EvaluationPipeline.evaluate\<close> on one pipeline, for the
  configuration of the scenario.
\<close>

definition no_generator :: question_generator where
  "no_generator question_types counts_per_type force_regenerate = Inr []"

definition first_run :: "(py_error + EvaluationResult) \<times> EvaluationPipeline" where
  "first_run =
     EvaluationPipeline_evaluate example_metrics False example_query no_generator
       example_rag_system (Some example_test_cases) False
       (EvaluationPipeline_init (scenario_config ''faithfulness'' ''bertscore''))"

definition second_run :: "(py_error + EvaluationResult) \<times> EvaluationPipeline" where
  "second_run =
     EvaluationPipeline_evaluate example_metrics False example_query no_generator
       example_rag_system (Some example_test_cases) False (snd first_run)"

text \<open>
  The result tree with the goal of negative question weight and the document that
  \<^verbatim>\<open>to_dict\<close> makes of it; the document of the scenario.
\<close>

definition negative_weight_result :: EvaluationResult where
  "negative_weight_result = \<lparr>er_goals = [negative_weight_goal]\<rparr>"

definition negative_weight_document :: json where
  "negative_weight_document =
     JObj [(''overall_score'', JNum (PyFloat 0)),
           (''goals'', JList
              [JObj [(''name'', JStr ''G''), (''score'', JNum (PyFloat 0)), (''weight'', JNum (PyFloat 1)),
                     (''questions'', JList
                        [JObj [(''text'', JStr ''Q''), (''score'', JNum (PyFloat 0.8)), (''weight'', JNum (PyFloat (- 1))),
                               (''metrics'', JList
                                  [JObj [(''id'', JStr ''faithfulness''), (''value'', JNum (PyFloat 0.8)),
                                         (''weight'', JNum (PyFloat 1))]])]])]])]"

definition scenario_document :: json where
  "scenario_document =
     JObj [(''overall_score'', JNum (PyFloat (2 / 3))),
           (''goals'', JList
              [JObj [(''name'', JStr ''G''), (''score'', JNum (PyFloat (2 / 3))), (''weight'', JNum (PyFloat 1)),
                     (''questions'', JList
                        [JObj [(''text'', JStr ''Q1''), (''score'', JNum (PyFloat (2 / 3))), (''weight'', JNum (PyFloat 1)),
                               (''metrics'', JList
                                  [JObj [(''id'', JStr ''faithfulness''), (''value'', JNum (PyFloat 0.8)),
                                         (''weight'', JNum (PyFloat 1))],
                                   JObj [(''id'', JStr ''bertscore''), (''value'', JNum (PyFloat 0.4)),
                                         (''weight'', JNum (PyFloat 0.5))]])]])]])]"

text \<open>
  The document that \<^verbatim>\<open>to_dict\<close> makes of the result tree whose question holds only
  answer correctness, a \<^verbatim>\<open>numpy.float64\<close>, with the weight 0.
\<close>

definition zero_weight_numpy_document :: json where
  "zero_weight_numpy_document =
     JObj [(''overall_score'', JNum (Number True NaN)),
           (''goals'', JList
              [JObj [(''name'', JStr ''G''), (''score'', JNum (Number True NaN)), (''weight'', JNum (PyFloat 1)),
                     (''questions'', JList
                        [JObj [(''text'', JStr ''Q''), (''score'', JNum (Number True NaN)), (''weight'', JNum (PyFloat 1)),
                               (''metrics'', JList
                                  [JObj [(''id'', JStr ''answer_correctness''), (''value'', JNum (NpFloat 0.6)),
                                         (''weight'', JNum (PyFloat 0)),
                                         (''individual_scores'', JList
                                            [JObj [(''query'', JStr ''q''), (''score'', JNum (PyFloat 0.6))]])]])]])]])]"

text \<open>
  A configuration whose second question has no metrics, the result tree of its run and
  the document of that tree.
\<close>

definition empty_question_config :: EvaluationConfig where
  "empty_question_config =
     \<lparr>goals = [\<lparr>gc_name = ''G'', gc_weight = 1,
                 gc_questions =
                   [\<lparr>qc_text = ''Q1'', qc_weight = 1, qc_metrics = [(''faithfulness'', 1)]\<rparr>,
                    \<lparr>qc_text = ''Q2'', qc_weight = 3, qc_metrics = []\<rparr>]\<rparr>],
      test_case_generation = []\<rparr>"

definition empty_question_result :: EvaluationResult where
  "empty_question_result =
     \<lparr>er_goals = [\<lparr>gr_goal_name = ''G'',
              gr_questions =
                [\<lparr>qr_question_text = ''Q1'',
                  qr_metrics = [\<lparr>mr_metric_id = ''faithfulness'', mr_value = PyFloat 0.8, mr_weight = 1,
                                 mr_individual_scores = None\<rparr>],
                  qr_weight = 1\<rparr>,
                 \<lparr>qr_question_text = ''Q2'', qr_metrics = [], qr_weight = 3\<rparr>],
              gr_weight = 1\<rparr>]\<rparr>"

definition empty_question_document :: json where
  "empty_question_document =
     JObj [(''overall_score'', JNum (PyFloat 0.2)),
           (''goals'', JList
              [JObj [(''name'', JStr ''G''), (''score'', JNum (PyFloat 0.2)), (''weight'', JNum (PyFloat 1)),
                     (''questions'', JList
                        [JObj [(''text'', JStr ''Q1''), (''score'', JNum (PyFloat 0.8)), (''weight'', JNum (PyFloat 1)),
                               (''metrics'', JList
                                  [JObj [(''id'', JStr ''faithfulness''), (''value'', JNum (PyFloat 0.8)),
                                         (''weight'', JNum (PyFloat 1))]])],
                         JObj [(''text'', JStr ''Q2''), (''score'', JNum (PyFloat 0)), (''weight'', JNum (PyFloat 3)),
                               (''metrics'', JList [])]])]])]"

section \<open>Properties\<close>

subsection \<open>The run relation\<close>

lemma run_rel_refl: "run_rel mf d data s s"
  by (auto simp: run_rel_def)

lemma run_rel_trans:
  assumes "run_rel mf d data s s'" and "run_rel mf d data s' s''"
  shows "run_rel mf d data s s''"
  unfolding run_rel_def
proof (intro conjI allI impI)
  show "config s'' = config s" using assms by (simp add: run_rel_def)
next
  fix i cr assume "metric_cache s i = Some cr"
  then show "metric_cache s'' i = Some cr" using assms by (simp add: run_rel_def)
next
  fix i cr assume a: "metric_cache s i = None \<and> metric_cache s'' i = Some cr"
  show "computed mf d data i = Inr (Some (cm_value cr, cm_individual_scores cr))"
  proof (cases "metric_cache s' i")
    case None
    then show ?thesis using a assms(2) by (simp add: run_rel_def)
  next
    case (Some cr')
    then have "metric_cache s'' i = Some cr'" using assms(2) by (simp add: run_rel_def)
    then have "cr' = cr" using a by simp
    then show ?thesis using a Some assms(1) by (simp add: run_rel_def)
  qed
next
  fix i assume a: "metric_cache s i \<noteq> None"
  then obtain cr where c: "metric_cache s i = Some cr" by auto
  then have "metric_cache s' i = Some cr" using assms(1) by (simp add: run_rel_def)
  then have "count_list (executed s'') i = count_list (executed s') i"
    using assms(2) by (simp add: run_rel_def)
  moreover have "count_list (executed s') i = count_list (executed s) i"
    using assms(1) c by (simp add: run_rel_def)
  ultimately show "count_list (executed s'') i = count_list (executed s) i" by simp
next
  fix i p assume a: "computed mf d data i = Inr (Some p)"
  have 1: "count_list (executed s') i =
          count_list (executed s) i + (if metric_cache s i = None \<and> metric_cache s' i \<noteq> None then 1 else 0)"
    using a assms(1) unfolding run_rel_def by blast
  have 2: "count_list (executed s'') i =
          count_list (executed s') i + (if metric_cache s' i = None \<and> metric_cache s'' i \<noteq> None then 1 else 0)"
    using a assms(2) unfolding run_rel_def by blast
  have 3: "\<And>cr. metric_cache s i = Some cr \<Longrightarrow> metric_cache s' i = Some cr"
    using assms(1) by (simp add: run_rel_def)
  have 4: "\<And>cr. metric_cache s' i = Some cr \<Longrightarrow> metric_cache s'' i = Some cr"
    using assms(2) by (simp add: run_rel_def)
  show "count_list (executed s'') i =
          count_list (executed s) i + (if metric_cache s i = None \<and> metric_cache s'' i \<noteq> None then 1 else 0)"
    using 1 2 3 4 by (cases "metric_cache s i"; cases "metric_cache s' i"; cases "metric_cache s'' i"; simp)
qed

lemma get_or_execute_metric_cached:
  "metric_cache s i = Some cr \<Longrightarrow>
   get_or_execute_metric mf d i w data s =
     (Inr (Some \<lparr>mr_metric_id = i, mr_value = cm_value cr, mr_weight = w,
                 mr_individual_scores = cm_individual_scores cr\<rparr>), s)"
  by (simp add: get_or_execute_metric_def)

lemma get_or_execute_metric_step:
  assumes "get_or_execute_metric mf d i w data s = (r, s')"
  shows "run_rel mf d data s s'"
    and "r = Inr (Some mr) \<Longrightarrow> mr_metric_id mr = i \<and> mr_weight mr = w \<and> metric_from_cache s' mr"
    and "r = Inr None \<Longrightarrow> metric_cache s i = None \<and> fst (execute_metric mf d i data) = PyNone"
    and "r = Inl e \<Longrightarrow> metric_cache s' = metric_cache s"
  using assms
  by (auto simp: get_or_execute_metric_def run_rel_def computed_def metric_from_cache_def Let_def
      split: option.splits prod.splits if_splits sum.splits)


lemma metric_from_cache_mono:
  "run_rel mf d data s s' \<Longrightarrow> metric_from_cache s mr \<Longrightarrow> metric_from_cache s' mr"
  by (auto simp: run_rel_def metric_from_cache_def split: option.splits)

lemma question_ok_mono:
  "run_rel mf d data s s' \<Longrightarrow> question_ok P s qc qr \<Longrightarrow> question_ok P s' qc qr"
  by (auto simp: question_ok_def list_all_iff intro: metric_from_cache_mono)

lemma goal_ok_mono:
  "run_rel mf d data s s' \<Longrightarrow> goal_ok P s gc gr \<Longrightarrow> goal_ok P s' gc gr"
  unfolding goal_ok_def
  by (auto elim!: list_all2_mono intro: question_ok_mono)

lemma computed_Some_not_None:
  "computed mf d data i = Inr (Some p) \<Longrightarrow> fst (execute_metric mf d i data) \<noteq> PyNone"
  by (auto simp: computed_def split: prod.splits if_splits)

lemma get_or_execute_metric_fresh_Some:
  "metric_cache s i = None \<Longrightarrow> get_or_execute_metric mf d i w data s = (Inr (Some mr), s') \<Longrightarrow>
   fst (execute_metric mf d i data) \<noteq> PyNone"
  by (auto simp: get_or_execute_metric_def Let_def split: prod.splits if_splits sum.splits)

lemma step_produces:
  assumes rel: "run_rel mf d data s0 s" and g: "get_or_execute_metric mf d i w data s = (r, s')"
  shows "r = Inr (Some mr) \<Longrightarrow> produces mf d data s0 i"
    and "r = Inr None \<Longrightarrow> \<not> produces mf d data s0 i"
proof -
  assume r: "r = Inr (Some mr)"
  show "produces mf d data s0 i"
  proof (cases "metric_cache s0 i")
    case (Some cr)
    then show ?thesis by (simp add: produces_def)
  next
    case None
    show ?thesis
    proof (cases "metric_cache s i")
      case (Some cr)
      with None rel have "computed mf d data i = Inr (Some (cm_value cr, cm_individual_scores cr))"
        unfolding run_rel_def by blast
      then show ?thesis by (simp add: produces_def computed_Some_not_None)
    next
      case None
      then show ?thesis using g r by (simp add: produces_def get_or_execute_metric_fresh_Some)
    qed
  qed
next
  assume r: "r = Inr None"
  have a: "metric_cache s i = None \<and> fst (execute_metric mf d i data) = PyNone"
    using get_or_execute_metric_step(3)[OF g r] .
  have "metric_cache s0 i = None"
  proof (cases "metric_cache s0 i")
    case (Some cr)
    with rel have "metric_cache s i = Some cr" unfolding run_rel_def by blast
    with a show ?thesis by simp
  qed simp
  with a show "\<not> produces mf d data s0 i" by (simp add: produces_def)
qed

lemma evaluate_question_loop_facts:
  assumes "run_rel mf d data s0 s"
    and "evaluate_question_loop mf d data ms acc s = (r, s')"
  shows "run_rel mf d data s s' \<and>
         (\<forall>rs. r = Inr rs \<longrightarrow>
            (\<exists>ys. rs = acc @ ys \<and>
               map (\<lambda>mr. (mr_metric_id mr, mr_weight mr)) ys = filter (\<lambda>(i, w). produces mf d data s0 i) ms \<and>
               list_all (metric_from_cache s') ys))"
  using assms
proof (induction ms arbitrary: acc s)
  case Nil
  then show ?case by (auto simp: run_rel_refl)
next
  case (Cons m ms)
  obtain i w where m: "m = (i, w)" by (cases m)
  obtain r1 s1 where g: "get_or_execute_metric mf d i w data s = (r1, s1)"
    by (cases "get_or_execute_metric mf d i w data s")
  have rel1: "run_rel mf d data s s1" using g by (rule get_or_execute_metric_step(1))
  have rel01: "run_rel mf d data s0 s1" using Cons.prems(1) rel1 by (rule run_rel_trans)
  show ?case
  proof (cases r1)
    case (Inl e)
    then show ?thesis using Cons.prems(2) m g rel1 by auto
  next
    case (Inr o1)
    show ?thesis
    proof (cases o1)
      case None
      have np: "\<not> produces mf d data s0 i"
        using step_produces(2)[OF Cons.prems(1) g] Inr None by simp
      have loop: "evaluate_question_loop mf d data ms acc s1 = (r, s')"
        using Cons.prems(2) m g Inr None by simp
      from Cons.IH[OF rel01 loop] np rel1 m show ?thesis
        by (auto intro: run_rel_trans)
    next
      case (Some mr)
      have p: "produces mf d data s0 i"
        using step_produces(1)[OF Cons.prems(1) g] Inr Some by simp
      have mrf: "mr_metric_id mr = i \<and> mr_weight mr = w \<and> metric_from_cache s1 mr"
        using get_or_execute_metric_step(2)[OF g] Inr Some by simp
      have loop: "evaluate_question_loop mf d data ms (acc @ [mr]) s1 = (r, s')"
        using Cons.prems(2) m g Inr Some by simp
      have IH: "run_rel mf d data s1 s' \<and>
         (\<forall>rs. r = Inr rs \<longrightarrow>
            (\<exists>ys. rs = (acc @ [mr]) @ ys \<and>
               map (\<lambda>mr. (mr_metric_id mr, mr_weight mr)) ys = filter (\<lambda>(i, w). produces mf d data s0 i) ms \<and>
               list_all (metric_from_cache s') ys))"
        using Cons.IH[OF rel01 loop] .
      then have rel2: "run_rel mf d data s1 s'" by simp
      have mr': "metric_from_cache s' mr"
        using metric_from_cache_mono[OF rel2] mrf by simp
      show ?thesis
      proof (intro conjI allI impI)
        show "run_rel mf d data s s'" using rel1 rel2 by (rule run_rel_trans)
      next
        fix rs assume "r = Inr rs"
        then obtain ys where ys: "rs = (acc @ [mr]) @ ys"
          "map (\<lambda>mr. (mr_metric_id mr, mr_weight mr)) ys = filter (\<lambda>(i, w). produces mf d data s0 i) ms"
          "list_all (metric_from_cache s') ys"
          using IH by blast
        show "\<exists>ys. rs = acc @ ys \<and>
               map (\<lambda>mr. (mr_metric_id mr, mr_weight mr)) ys = filter (\<lambda>(i, w). produces mf d data s0 i) (m # ms) \<and>
               list_all (metric_from_cache s') ys"
          using ys p mrf mr' m by (intro exI[of _ "mr # ys"]) simp
      qed
    qed
  qed
qed

lemma evaluate_question_facts:
  assumes "run_rel mf d data s0 s"
    and "evaluate_question mf d data qc s = (r, s')"
  shows "run_rel mf d data s s' \<and> (\<forall>qr. r = Inr qr \<longrightarrow> question_ok (produces mf d data s0) s' qc qr)"
proof -
  obtain r1 s1 where l: "evaluate_question_loop mf d data (qc_metrics qc) [] s = (r1, s1)"
    by (cases "evaluate_question_loop mf d data (qc_metrics qc) [] s")
  from evaluate_question_loop_facts[OF assms(1) l] assms(2) l show ?thesis
    by (auto simp: evaluate_question_def question_ok_def split: sum.splits)
qed

lemma for_each_rule:
  assumes step: "\<And>x s r s'. x \<in> set xs \<Longrightarrow> J s \<Longrightarrow> f x s = (r, s') \<Longrightarrow>
                   R s s' \<and> (\<forall>y. r = Inr y \<longrightarrow> Post x y s')"
    and J_R: "\<And>s s'. J s \<Longrightarrow> R s s' \<Longrightarrow> J s'"
    and refl: "\<And>s. R s s"
    and trans: "\<And>s s' s''. R s s' \<Longrightarrow> R s' s'' \<Longrightarrow> R s s''"
    and stable: "\<And>x y s s'. Post x y s \<Longrightarrow> R s s' \<Longrightarrow> Post x y s'"
    and "J s0" and "for_each f xs acc s0 = (res, s1)"
  shows "R s0 s1 \<and> (\<forall>rs. res = Inr rs \<longrightarrow> (\<exists>ys. rs = acc @ ys \<and> list_all2 (\<lambda>x y. Post x y s1) xs ys))"
  using assms
proof (induction xs arbitrary: acc s0)
  case Nil
  then show ?case by auto
next
  case (Cons x xs)
  obtain r1 s' where f: "f x s0 = (r1, s')" by (cases "f x s0")
  have st: "R s0 s' \<and> (\<forall>y. r1 = Inr y \<longrightarrow> Post x y s')"
    using Cons.prems(1)[OF _ Cons.prems(6) f] by simp
  show ?case
  proof (cases r1)
    case (Inl e)
    then show ?thesis using Cons.prems(7) f st by auto
  next
    case (Inr y)
    have loop: "for_each f xs (acc @ [y]) s' = (res, s1)" using Cons.prems(7) f Inr by simp
    have J': "J s'" using Cons.prems(2)[OF Cons.prems(6)] st by simp
    have IH: "R s' s1 \<and> (\<forall>rs. res = Inr rs \<longrightarrow> (\<exists>ys. rs = (acc @ [y]) @ ys \<and> list_all2 (\<lambda>x y. Post x y s1) xs ys))"
    proof (rule Cons.IH[OF _ _ _ _ _ J' loop])
      fix x' s r s'
      assume "x' \<in> set xs" "J s" "f x' s = (r, s')"
      then show "R s s' \<and> (\<forall>y. r = Inr y \<longrightarrow> Post x' y s')"
        using Cons.prems(1)[of x' s r s'] by simp
    qed (fact Cons.prems)+
    have Py: "Post x y s1" using st Inr IH Cons.prems(5) by blast
    show ?thesis
    proof (intro conjI allI impI)
      show "R s0 s1" using st IH Cons.prems(4) by blast
    next
      fix rs assume "res = Inr rs"
      then obtain ys where "rs = (acc @ [y]) @ ys" "list_all2 (\<lambda>x y. Post x y s1) xs ys"
        using IH by blast
      then show "\<exists>ys. rs = acc @ ys \<and> list_all2 (\<lambda>x y. Post x y s1) (x # xs) ys"
        using Py by (intro exI[of _ "y # ys"]) simp
    qed
  qed
qed

lemma evaluate_goal_facts:
  assumes "run_rel mf d data s0 s"
    and "evaluate_goal mf d data gc s = (r, s')"
  shows "run_rel mf d data s s' \<and> (\<forall>gr. r = Inr gr \<longrightarrow> goal_ok (produces mf d data s0) s' gc gr)"
proof -
  obtain r1 s1 where l: "for_each (evaluate_question mf d data) (gc_questions gc) [] s = (r1, s1)"
    by (cases "for_each (evaluate_question mf d data) (gc_questions gc) [] s")
  have "run_rel mf d data s s1 \<and>
        (\<forall>rs. r1 = Inr rs \<longrightarrow> (\<exists>ys. rs = [] @ ys \<and>
            list_all2 (\<lambda>x y. question_ok (produces mf d data s0) s1 x y) (gc_questions gc) ys))"
  proof (rule for_each_rule[where J = "run_rel mf d data s0" and f = "evaluate_question mf d data", OF _ _ _ _ _ assms(1) l])
    show "\<And>x s r s'. x \<in> set (gc_questions gc) \<Longrightarrow> run_rel mf d data s0 s \<Longrightarrow>
            evaluate_question mf d data x s = (r, s') \<Longrightarrow>
            run_rel mf d data s s' \<and> (\<forall>y. r = Inr y \<longrightarrow> question_ok (produces mf d data s0) s' x y)"
      using evaluate_question_facts by blast
  qed (auto intro: run_rel_trans run_rel_refl question_ok_mono)
  with assms(2) l show ?thesis
    by (auto simp: evaluate_goal_def goal_ok_def split: sum.splits)
qed

lemma evaluate_goals_facts:
  assumes "evaluate_goals mf d data s0 = (r, s')"
  shows "run_rel mf d data s0 s' \<and>
         (\<forall>res. r = Inr res \<longrightarrow>
            list_all2 (goal_ok (produces mf d data s0) s') (goals (config s0)) (er_goals res))"
proof -
  obtain r1 s1 where l: "for_each (evaluate_goal mf d data) (goals (config s0)) [] s0 = (r1, s1)"
    by (cases "for_each (evaluate_goal mf d data) (goals (config s0)) [] s0")
  have "run_rel mf d data s0 s1 \<and>
        (\<forall>rs. r1 = Inr rs \<longrightarrow> (\<exists>ys. rs = [] @ ys \<and>
            list_all2 (\<lambda>x y. goal_ok (produces mf d data s0) s1 x y) (goals (config s0)) ys))"
  proof (rule for_each_rule[where J = "run_rel mf d data s0" and f = "evaluate_goal mf d data", OF _ _ _ _ _ run_rel_refl l])
    show "\<And>x s r s'. x \<in> set (goals (config s0)) \<Longrightarrow> run_rel mf d data s0 s \<Longrightarrow>
            evaluate_goal mf d data x s = (r, s') \<Longrightarrow>
            run_rel mf d data s s' \<and> (\<forall>y. r = Inr y \<longrightarrow> goal_ok (produces mf d data s0) s' x y)"
      using evaluate_goal_facts by blast
  qed (auto intro: run_rel_trans run_rel_refl goal_ok_mono)
  with assms l show ?thesis
    by (auto simp: evaluate_goals_def split: sum.splits)
qed

subsection \<open>Scores\<close>

lemma traverse_Inr_map: "traverse f xs = Inr ys \<Longrightarrow> map f xs = map Inr ys"
  by (induction xs arbitrary: ys) (auto split: sum.splits)

lemma map_Inr_traverse: "map f xs = map Inr ys \<Longrightarrow> traverse f xs = Inr ys"
  by (induction xs arbitrary: ys) auto

lemma traverse_scaled:
  "map sc xs = map Inr ss \<Longrightarrow>
   traverse (\<lambda>x. map_sum id (\<lambda>s. times_weight s (w x)) (sc x)) xs =
     Inr (map (\<lambda>(s, x). times_weight s (w x)) (zip ss xs))"
  by (induction xs arbitrary: ss) auto

lemma zip_times_weight:
  "map (\<lambda>(s, x). times_weight s (f x)) (zip ss xs) =
   map (\<lambda>(s, w). times_weight s w) (zip ss (map f xs))"
  by (induction ss xs rule: list_induct2') simp_all

lemma foldl_num_add_finite:
  "list_all finite_number xs \<Longrightarrow>
   foldl num_add (Number b (Finite a)) xs =
     Number (b \<or> list_ex is_numpy xs) (Finite (a + (\<Sum>x\<leftarrow>xs. number_real x)))"
proof (induction xs arbitrary: a b)
  case Nil
  then show ?case by simp
next
  case (Cons x xs)
  obtain np v where x: "x = Number np v" by (cases x)
  from Cons.prems obtain r where v: "v = Finite r"
    by (cases v) (simp_all add: x finite_number_def)
  have "foldl num_add (Number b (Finite a)) (x # xs) =
          foldl num_add (Number (b \<or> np) (Finite (a + r))) xs"
    by (simp add: x v num_add_def)
  also have "\<dots> = Number ((b \<or> np) \<or> list_ex is_numpy xs) (Finite ((a + r) + (\<Sum>x\<leftarrow>xs. number_real x)))"
    using Cons.prems by (intro Cons.IH) simp
  finally show ?case by (simp add: x v number_real_def add.assoc)
qed

lemma py_sum_finite:
  "list_all finite_number xs \<Longrightarrow>
   py_sum xs = Number (list_ex is_numpy xs) (Finite (\<Sum>x\<leftarrow>xs. number_real x))"
  using foldl_num_add_finite[of xs False 0] by (simp add: py_sum_def)

lemma foldl_num_add_numpy:
  "is_numpy (foldl num_add a xs) = (is_numpy a \<or> list_ex is_numpy xs)"
  by (induction xs arbitrary: a) (auto simp: num_add_def)

lemma is_numpy_py_sum: "is_numpy (py_sum xs) = list_ex is_numpy xs"
  by (simp add: py_sum_def foldl_num_add_numpy)

lemma times_weight_finite:
  "finite_number s \<Longrightarrow> times_weight s w = Number (is_numpy s) (Finite (number_real s * w))"
  by (cases s; cases "float_value s") (simp_all add: finite_number_def number_real_def times_weight_def)

lemma number_average_finite:
  assumes fin: "list_all (finite_number \<circ> fst) sw" and nz: "sum_list (map snd sw) \<noteq> 0"
  shows "number_average sw =
           Number (list_ex (is_numpy \<circ> fst) sw)
             (Finite ((\<Sum>(s, w)\<leftarrow>sw. number_real s * w) / sum_list (map snd sw)))"
proof -
  let ?terms = "map (\<lambda>(s, w). times_weight s w) sw"
  have t: "?terms = map (\<lambda>(s, w). Number (is_numpy s) (Finite (number_real s * w))) sw"
    using fin by (induction sw) (auto simp: times_weight_finite)
  have f: "list_all finite_number ?terms"
    unfolding t by (induction sw) (auto simp: finite_number_def)
  have np: "list_ex is_numpy ?terms = list_ex (is_numpy \<circ> fst) sw"
    unfolding t by (induction sw) auto
  have r: "(\<Sum>x\<leftarrow>?terms. number_real x) = (\<Sum>(s, w)\<leftarrow>sw. number_real s * w)"
    unfolding t by (induction sw) (auto simp: number_real_def)
  have "py_sum ?terms = Number (list_ex is_numpy ?terms) (Finite (\<Sum>x\<leftarrow>?terms. number_real x))"
    by (rule py_sum_finite[OF f])
  then have ps: "py_sum ?terms =
      Number (list_ex (is_numpy \<circ> fst) sw) (Finite (\<Sum>(s, w)\<leftarrow>sw. number_real s * w))"
    unfolding np r .
  show ?thesis
    unfolding number_average_def Let_def ps using nz by simp
qed

lemma QuestionResult_score_empty: "qr_metrics q = [] \<Longrightarrow> QuestionResult_score q = Inr (PyFloat 0)"
  by (simp add: QuestionResult_score_def)

lemma QuestionResult_score_nonzero:
  "sum_list (map mr_weight (qr_metrics q)) \<noteq> 0 \<Longrightarrow>
   QuestionResult_score q =
     Inr (number_average (map (\<lambda>m. (mr_value m, mr_weight m)) (qr_metrics q)))"
  by (auto simp: QuestionResult_score_def py_truediv_def number_average_def Let_def comp_def)

lemma QuestionResult_score_zero:
  "qr_metrics q \<noteq> [] \<Longrightarrow> sum_list (map mr_weight (qr_metrics q)) = 0 \<Longrightarrow>
   QuestionResult_score q =
     (if list_ex (is_numpy \<circ> mr_value) (qr_metrics q)
      then Inr (number_average (map (\<lambda>m. (mr_value m, mr_weight m)) (qr_metrics q)))
      else Inl ZeroDivisionError)"
  by (auto simp: QuestionResult_score_def py_truediv_def number_average_def Let_def comp_def
      is_numpy_py_sum times_weight_def list_ex_iff)

lemma GoalResult_score_empty: "gr_questions g = [] \<Longrightarrow> GoalResult_score g = Inr (PyFloat 0)"
  by (simp add: GoalResult_score_def)

lemma GoalResult_score_defined:
  assumes "map QuestionResult_score (gr_questions g) = map Inr ss"
  shows "GoalResult_score g =
     Inr (if gr_questions g \<noteq> [] \<and> sum_list (map qr_weight (gr_questions g)) > 0
          then number_average (zip ss (map qr_weight (gr_questions g)))
          else PyFloat 0)"
proof -
  have len: "length ss = length (gr_questions g)" using assms by (metis length_map)
  then have snd: "map snd (zip ss (map qr_weight (gr_questions g))) = map qr_weight (gr_questions g)"
    by simp
  show ?thesis
    using traverse_scaled[OF assms, of qr_weight]
    by (simp add: GoalResult_score_def Let_def py_truediv_def number_average_def snd
        zip_times_weight[where f = qr_weight and ss = ss and xs = "gr_questions g"])
qed

lemma EvaluationResult_score_empty: "er_goals e = [] \<Longrightarrow> EvaluationResult_score e = Inr (PyFloat 0)"
  by (simp add: EvaluationResult_score_def)

lemma EvaluationResult_score_defined:
  assumes "map GoalResult_score (er_goals e) = map Inr ss"
  shows "EvaluationResult_score e =
     Inr (if er_goals e \<noteq> [] \<and> sum_list (map gr_weight (er_goals e)) > 0
          then number_average (zip ss (map gr_weight (er_goals e)))
          else PyFloat 0)"
proof -
  have len: "length ss = length (er_goals e)" using assms by (metis length_map)
  then have snd: "map snd (zip ss (map gr_weight (er_goals e))) = map gr_weight (er_goals e)"
    by simp
  show ?thesis
    using traverse_scaled[OF assms, of gr_weight]
    by (simp add: EvaluationResult_score_def Let_def py_truediv_def number_average_def snd
        zip_times_weight[where f = gr_weight and ss = ss and xs = "er_goals e"])
qed

lemmas score_defs =
  EvaluationResult_score_def GoalResult_score_def QuestionResult_score_def py_truediv_def
  py_sum_def num_add_def times_weight_def

lemmas run_defs =
  evaluate_goals_def evaluate_goal_def evaluate_question_def get_or_execute_metric_def
  execute_metric_def metric_function_def score_and_details_def GQMFramework_init_def
  MetricId_of_def

lemma scenario_scores:
  "QuestionResult_score (scenario_question m1 m2) = Inr (PyFloat (2 / 3))"
  "GoalResult_score (scenario_goal m1 m2) = Inr (PyFloat (2 / 3))"
  "EvaluationResult_score (scenario_result m1 m2) = Inr (PyFloat (2 / 3))"
  by (simp_all add: scenario_result_def scenario_goal_def scenario_question_def score_defs)

lemma scenario_run:
  assumes "m1 \<noteq> m2" "MetricId_of m1 = Some k1" "MetricId_of m2 = Some k2"
    "mf k1 d data = Inr (Scored (PyFloat 0.8) ds1)" "mf k2 d data = Inr (Scored (PyFloat 0.4) ds2)"
  shows "\<exists>result. fst (evaluate_goals mf d data (GQMFramework_init (scenario_config m1 m2))) = Inr result \<and>
           map (map QuestionResult_score \<circ> gr_questions) (er_goals result) = [[Inr (PyFloat (2 / 3))]] \<and>
           map GoalResult_score (er_goals result) = [Inr (PyFloat (2 / 3))] \<and>
           EvaluationResult_score result = Inr (PyFloat (2 / 3)) \<and>
           (\<not> d \<longrightarrow> result = scenario_result m1 m2)"
  using assms
  by (cases d)
     (simp_all add: evaluate_goals_def evaluate_goal_def evaluate_question_def
        get_or_execute_metric_def execute_metric_def metric_function_def score_and_details_def
        GQMFramework_init_def scenario_config_def scenario_result_def scenario_goal_def
        scenario_question_def score_defs)

text \<open>
  C1 (as amended). A parent without children has the score 0. A question whose metric
  weights do not sum to zero has the score \<open>sum(value_i * weight_i) / sum(weight_i)\<close>.
  A goal whose questions all have a score and whose question weights sum to a positive
  number has the score \<open>sum(score_i * weight_i) / sum(weight_i)\<close>, and so has an
  evaluation result over its goals; when these weights sum to zero or less, the goal's
  or the evaluation's score is 0. The quotient is that of the run-time numbers; for
  finite scores and weights that do not sum to zero it is the quotient of the reals. In
  the scenario of the specification the run yields a tree in which the question, the
  goal and the evaluation all score 2/3, and with the flag off that tree is the
  scenario's.
\<close>

theorem scores_are_weighted_averages:
  "(qr_metrics q = [] \<longrightarrow> QuestionResult_score q = Inr (PyFloat 0)) \<and>
   ((\<Sum>m\<leftarrow>qr_metrics q. mr_weight m) \<noteq> 0 \<longrightarrow>
      QuestionResult_score q =
        Inr (number_average (map (\<lambda>m. (mr_value m, mr_weight m)) (qr_metrics q)))) \<and>
   (gr_questions g = [] \<longrightarrow> GoalResult_score g = Inr (PyFloat 0)) \<and>
   (map QuestionResult_score (gr_questions g) = map Inr qs \<and> (\<Sum>q\<leftarrow>gr_questions g. qr_weight q) > 0 \<longrightarrow>
      GoalResult_score g = Inr (number_average (zip qs (map qr_weight (gr_questions g))))) \<and>
   (map QuestionResult_score (gr_questions g) = map Inr qs \<and> (\<Sum>q\<leftarrow>gr_questions g. qr_weight q) \<le> 0 \<longrightarrow>
      GoalResult_score g = Inr (PyFloat 0)) \<and>
   (er_goals e = [] \<longrightarrow> EvaluationResult_score e = Inr (PyFloat 0)) \<and>
   (map GoalResult_score (er_goals e) = map Inr gs \<and> (\<Sum>g\<leftarrow>er_goals e. gr_weight g) \<le> 0 \<longrightarrow>
      EvaluationResult_score e = Inr (PyFloat 0)) \<and>
   (map GoalResult_score (er_goals e) = map Inr gs \<and> (\<Sum>g\<leftarrow>er_goals e. gr_weight g) > 0 \<longrightarrow>
      EvaluationResult_score e = Inr (number_average (zip gs (map gr_weight (er_goals e))))) \<and>
   (list_all (finite_number \<circ> fst) sw \<and> sum_list (map snd sw) \<noteq> 0 \<longrightarrow>
      number_average sw =
        Number (list_ex (is_numpy \<circ> fst) sw)
          (Finite ((\<Sum>(s, w)\<leftarrow>sw. number_real s * w) / sum_list (map snd sw)))) \<and>
   (m1 \<noteq> m2 \<and> MetricId_of m1 = Some k1 \<and> MetricId_of m2 = Some k2 \<and>
    mf k1 d data = Inr (Scored (PyFloat 0.8) ds1) \<and> mf k2 d data = Inr (Scored (PyFloat 0.4) ds2) \<longrightarrow>
      (\<exists>result. fst (evaluate_goals mf d data (GQMFramework_init (scenario_config m1 m2))) = Inr result \<and>
         map (map QuestionResult_score \<circ> gr_questions) (er_goals result) = [[Inr (PyFloat (2 / 3))]] \<and>
         map GoalResult_score (er_goals result) = [Inr (PyFloat (2 / 3))] \<and>
         EvaluationResult_score result = Inr (PyFloat (2 / 3)) \<and>
         (\<not> d \<longrightarrow> result = scenario_result m1 m2))) \<and>
   QuestionResult_score (scenario_question m1 m2) = Inr (PyFloat (2 / 3)) \<and>
   GoalResult_score (scenario_goal m1 m2) = Inr (PyFloat (2 / 3)) \<and>
   EvaluationResult_score (scenario_result m1 m2) = Inr (PyFloat (2 / 3))"
proof (intro conjI impI)
  assume "map QuestionResult_score (gr_questions g) = map Inr qs \<and> (\<Sum>q\<leftarrow>gr_questions g. qr_weight q) > 0"
  then show "GoalResult_score g = Inr (number_average (zip qs (map qr_weight (gr_questions g))))"
    using GoalResult_score_defined[of g qs] by auto
next
  assume "map QuestionResult_score (gr_questions g) = map Inr qs \<and> (\<Sum>q\<leftarrow>gr_questions g. qr_weight q) \<le> 0"
  then show "GoalResult_score g = Inr (PyFloat 0)"
    using GoalResult_score_defined[of g qs] by auto
next
  assume "map GoalResult_score (er_goals e) = map Inr gs \<and> (\<Sum>g\<leftarrow>er_goals e. gr_weight g) \<le> 0"
  then show "EvaluationResult_score e = Inr (PyFloat 0)"
    using EvaluationResult_score_defined[of e gs] by auto
next
  assume "map GoalResult_score (er_goals e) = map Inr gs \<and> (\<Sum>g\<leftarrow>er_goals e. gr_weight g) > 0"
  then show "EvaluationResult_score e = Inr (number_average (zip gs (map gr_weight (er_goals e))))"
    using EvaluationResult_score_defined[of e gs] by auto
next
  assume "list_all (finite_number \<circ> fst) sw \<and> sum_list (map snd sw) \<noteq> 0"
  then show "number_average sw =
        Number (list_ex (is_numpy \<circ> fst) sw)
          (Finite ((\<Sum>(s, w)\<leftarrow>sw. number_real s * w) / sum_list (map snd sw)))"
    by (simp add: number_average_finite)
next
  assume "m1 \<noteq> m2 \<and> MetricId_of m1 = Some k1 \<and> MetricId_of m2 = Some k2 \<and>
    mf k1 d data = Inr (Scored (PyFloat 0.8) ds1) \<and> mf k2 d data = Inr (Scored (PyFloat 0.4) ds2)"
  then show "\<exists>result. fst (evaluate_goals mf d data (GQMFramework_init (scenario_config m1 m2))) = Inr result \<and>
         map (map QuestionResult_score \<circ> gr_questions) (er_goals result) = [[Inr (PyFloat (2 / 3))]] \<and>
         map GoalResult_score (er_goals result) = [Inr (PyFloat (2 / 3))] \<and>
         EvaluationResult_score result = Inr (PyFloat (2 / 3)) \<and>
         (\<not> d \<longrightarrow> result = scenario_result m1 m2)"
    using scenario_run[of m1 m2 k1 k2 mf d data ds1 ds2] by blast
qed (simp_all add: QuestionResult_score_empty QuestionResult_score_nonzero GoalResult_score_empty
      EvaluationResult_score_empty scenario_scores)

theorem scores_are_weighted_averages_witness:
  "(\<Sum>m\<leftarrow>qr_metrics (scenario_question ''faithfulness'' ''bertscore''). mr_weight m) \<noteq> 0 \<and>
   QuestionResult_score (scenario_question ''faithfulness'' ''bertscore'') =
     Inr (number_average [(PyFloat 0.8, 1), (PyFloat 0.4, 0.5)]) \<and>
   number_average [(PyFloat 0.8, 1), (PyFloat 0.4, 0.5)] = PyFloat ((0.8 * 1 + 0.4 * 0.5) / (1 + 0.5)) \<and>
   map QuestionResult_score (gr_questions (scenario_goal ''faithfulness'' ''bertscore'')) =
     map Inr [PyFloat (2 / 3)] \<and>
   (\<Sum>q\<leftarrow>gr_questions (scenario_goal ''faithfulness'' ''bertscore''). qr_weight q) > 0 \<and>
   GoalResult_score (scenario_goal ''faithfulness'' ''bertscore'') = Inr (PyFloat (((2 / 3) * 1) / 1)) \<and>
   map GoalResult_score (er_goals (scenario_result ''faithfulness'' ''bertscore'')) =
     map Inr [PyFloat (2 / 3)] \<and>
   (\<Sum>g\<leftarrow>er_goals (scenario_result ''faithfulness'' ''bertscore''). gr_weight g) > 0 \<and>
   EvaluationResult_score (scenario_result ''faithfulness'' ''bertscore'') = Inr (PyFloat (((2 / 3) * 1) / 1)) \<and>
   ''faithfulness'' \<noteq> ''bertscore'' \<and>
   MetricId_of ''faithfulness'' = Some FAITHFULNESS \<and> MetricId_of ''bertscore'' = Some BERTSCORE \<and>
   example_metrics FAITHFULNESS False no_test_cases = Inr (Scored (PyFloat 0.8) []) \<and>
   example_metrics BERTSCORE False no_test_cases = Inr (Scored (PyFloat 0.4) []) \<and>
   fst (evaluate_goals example_metrics False no_test_cases
          (GQMFramework_init (scenario_config ''faithfulness'' ''bertscore''))) =
     Inr (scenario_result ''faithfulness'' ''bertscore'')"
  using scores_are_weighted_averages[of "scenario_question ''faithfulness'' ''bertscore''"
      "scenario_goal ''faithfulness'' ''bertscore''" "[PyFloat (2 / 3)]"
      "scenario_result ''faithfulness'' ''bertscore''" "[PyFloat (2 / 3)]"
      "[(PyFloat 0.8, 1), (PyFloat 0.4, 0.5)]"
      "''faithfulness''" "''bertscore''" FAITHFULNESS BERTSCORE example_metrics False no_test_cases
      "[]" "[]"]
  by (simp add: scenario_result_def scenario_goal_def scenario_question_def MetricId_of_def
      example_metrics_def finite_number_def number_real_def)

text \<open>
  C1 as stated fails for a goal whose question weights sum to a negative number: the
  guard \<^verbatim>\<open>if total_weight > 0 else 0.0\<close> returns 0, while the quotient is the question's
  score 0.8.
\<close>

theorem goal_score_weighted_average_counterexample:
  "fst (evaluate_goals example_metrics False no_test_cases (GQMFramework_init negative_weight_config)) =
     Inr \<lparr>er_goals = [negative_weight_goal]\<rparr> \<and>
   gr_questions negative_weight_goal \<noteq> [] \<and>
   map QuestionResult_score (gr_questions negative_weight_goal) = [Inr (PyFloat 0.8)] \<and>
   map qr_weight (gr_questions negative_weight_goal) = [- 1] \<and>
   GoalResult_score negative_weight_goal = Inr (PyFloat 0) \<and>
   number_average [(PyFloat 0.8, - 1)] = PyFloat 0.8 \<and>
   (0.8 * (- 1)) / (- 1) \<noteq> (0 :: real)"
  by (simp add: negative_weight_goal_def score_defs run_defs negative_weight_config_def
      example_metrics_def number_average_def)

text \<open>
  C3. \<^verbatim>\<open>QuestionResult.score\<close> divides without a guard: for the configuration that gives
  the only metric of its question the weight 0, the run yields a question whose score
  raises \<^verbatim>\<open>ZeroDivisionError\<close>, and the exception leaves the goal's score, the overall
  score and \<^verbatim>\<open>to_dict\<close>. The goal's own division is guarded: a goal whose question has
  the weight 0 and a score scores 0.
\<close>

theorem question_score_zero_weight_raises:
  "fst (evaluate_goals example_metrics False no_test_cases (GQMFramework_init zero_weight_config)) =
     Inr zero_weight_result \<and>
   QuestionResult_score zero_weight_question = Inl ZeroDivisionError \<and>
   GoalResult_score zero_weight_goal = Inl ZeroDivisionError \<and>
   EvaluationResult_score zero_weight_result = Inl ZeroDivisionError \<and>
   to_dict zero_weight_result = Inl ZeroDivisionError \<and>
   GoalResult_score \<lparr>gr_goal_name = ''G'',
                     gr_questions = [\<lparr>qr_question_text = ''Q'', qr_metrics = [], qr_weight = 0\<rparr>],
                     gr_weight = 1\<rparr> = Inr (PyFloat 0)"
  by (simp add: run_defs zero_weight_config_def
      zero_weight_result_def zero_weight_goal_def zero_weight_question_def
      example_metrics_def no_test_cases_def to_dict_def score_defs)

subsection \<open>Running the test cases\<close>

lemma test_rag_system_loop_facts:
  "test_rag_system_loop query tcs acc sys self = (res, sys', self') \<Longrightarrow>
   res = acc @ map (\<lambda>(tc, out). recorded tc out) (zip tcs (query_outcomes query (rs_state sys) (map tc_question tcs))) \<and>
   rs_queried sys' = rs_queried sys @ map tc_question tcs \<and>
   metric_cache self' = metric_cache self \<and> executed self' = executed self \<and> config self' = config self"
proof (induction tcs arbitrary: acc sys self)
  case Nil
  then show ?case by auto
next
  case (Cons tc tcs)
  obtain out st where q: "query (rs_state sys) (tc_question tc) = (out, st)"
    by (cases "query (rs_state sys) (tc_question tc)")
  show ?case
  proof (cases out)
    case (Inl e)
    with Cons.prems q show ?thesis
      by (auto simp: rag_system_query_def recorded_def dest!: Cons.IH)
  next
    case (Inr r)
    with Cons.prems q show ?thesis
      by (auto simp: rag_system_query_def recorded_def dest!: Cons.IH)
  qed
qed

lemma test_rag_system_facts:
  "test_rag_system query tcs sys self = (batch, sys', self') \<Longrightarrow>
   test_case_results batch = map (\<lambda>(tc, out). recorded tc out) (zip tcs (query_outcomes query (rs_state sys) (map tc_question tcs))) \<and>
   rs_queried sys' = rs_queried sys @ map tc_question tcs \<and>
   metric_cache self' = metric_cache self \<and> executed self' = executed self \<and> config self' = config self"
  by (auto simp: test_rag_system_def split: prod.splits dest!: test_rag_system_loop_facts)

lemma length_query_outcomes [simp]: "length (query_outcomes query s qs) = length qs"
  by (induction qs arbitrary: s) (auto split: prod.splits)

text \<open>
  C5. \<^verbatim>\<open>_test_rag_system\<close> calls the RAG system's \<^verbatim>\<open>query\<close> once for every test case,
  in input order, and returns one \<^verbatim>\<open>TestCaseResult\<close> for every test case, in input
  order. Each carries the query, ground truth, entities and question type of its test
  case; when the query raised, answer and documents are empty, otherwise they are those
  of the result. The function has no exceptional outcome, and \<^verbatim>\<open>evaluate\<close> goes on to
  evaluate the goals on the batch.
\<close>

theorem test_cases_run_once_each:
  assumes "test_rag_system query test_cases rag_system self = (batch, rag_system', self')"
  shows "rs_queried rag_system' = rs_queried rag_system @ map tc_question test_cases \<and>
         length (test_case_results batch) = length test_cases \<and>
         (\<forall>i < length test_cases.
            tr_query (test_case_results batch ! i) = tc_question (test_cases ! i) \<and>
            tr_ground_truth (test_case_results batch ! i) = tc_ground_truth (test_cases ! i) \<and>
            tr_entities (test_case_results batch ! i) = tc_entities (test_cases ! i) \<and>
            tr_question_type (test_case_results batch ! i) = tc_question_type (test_cases ! i) \<and>
            (case query_outcomes query (rs_state rag_system) (map tc_question test_cases) ! i of
               Inl e \<Rightarrow> tr_generated_answer (test_case_results batch ! i) = [] \<and>
                        tr_retrieved_documents (test_case_results batch ! i) = []
             | Inr r \<Rightarrow> tr_generated_answer (test_case_results batch ! i) = rag_answer r \<and>
                        tr_retrieved_documents (test_case_results batch ! i) = rag_retrieved_documents r)) \<and>
         evaluate mf d query test_cases rag_system self = evaluate_goals mf d batch self'"
proof -
  note f = test_rag_system_facts[OF assms]
  show ?thesis
  proof (intro conjI allI impI)
    show "evaluate mf d query test_cases rag_system self = evaluate_goals mf d batch self'"
      using assms by (simp add: evaluate_def)
  qed (use f in \<open>auto simp: recorded_def split: sum.splits\<close>)
qed

theorem test_cases_run_once_each_witness:
  "rs_queried (fst (snd (test_rag_system example_query example_test_cases example_rag_system (GQMFramework_init zero_weight_config)))) = [''q0'', ''q1'', ''q2''] \<and>
   query_outcomes example_query 0 [''q0'', ''q1'', ''q2''] ! 1 = Inl (RuntimeError ''timeout'') \<and>
   map tr_query (test_case_results (fst (test_rag_system example_query example_test_cases example_rag_system (GQMFramework_init zero_weight_config)))) = [''q0'', ''q1'', ''q2''] \<and>
   map tr_generated_answer (test_case_results (fst (test_rag_system example_query example_test_cases example_rag_system (GQMFramework_init zero_weight_config)))) = [''an answer'', [], ''an answer'']"
  using test_cases_run_once_each[of example_query example_test_cases example_rag_system "GQMFramework_init zero_weight_config"
      "fst (test_rag_system example_query example_test_cases example_rag_system (GQMFramework_init zero_weight_config))"
      "fst (snd (test_rag_system example_query example_test_cases example_rag_system (GQMFramework_init zero_weight_config)))"
      "snd (snd (test_rag_system example_query example_test_cases example_rag_system (GQMFramework_init zero_weight_config)))"]
  by (simp add: test_rag_system_def rag_system_query_def example_query_def example_test_cases_def example_rag_system_def)

subsection \<open>One metric\<close>

lemma get_or_execute_metric_raises:
  "get_or_execute_metric mf d i w data s = (Inl e, s') \<Longrightarrow> metric_cache s' = metric_cache s"
  by (rule get_or_execute_metric_step(4)) auto

text \<open>
  C6. When the identifier is not one of the fifteen, or the metric function raises, and
  the metric is not cached: \<^verbatim>\<open>execute_metric\<close> logs one error record and returns 0.0;
  \<^verbatim>\<open>_get_or_execute_metric\<close> raises nothing and returns the \<^verbatim>\<open>MetricResult\<close> with
  value 0.0 and the question's weight; the cache entry written for the metric is that
  complete result (value 0.0, no breakdown); and the loop of \<^verbatim>\<open>evaluate_question\<close>
  goes on with the remaining metrics. Whenever \<^verbatim>\<open>_get_or_execute_metric\<close> does raise,
  the cache is as it was before the call.
\<close>

theorem metric_failure_scores_zero:
  assumes "MetricId_of metric_id = None \<or> (\<exists>k e. MetricId_of metric_id = Some k \<and> mf k d data = Inl e)"
    and "metric_cache self metric_id = None"
  shows "\<exists>entry self'.
           (entry = Unknown_metric_ID metric_id \<or> (\<exists>e. entry = Executor_failed_to_execute_metric metric_id e)) \<and>
           execute_metric mf d metric_id data = (PyNumber (PyFloat 0), [entry]) \<and>
           self' = self\<lparr>executed := executed self @ [metric_id],
                        error_log := error_log self @ [entry],
                        metric_cache := (metric_cache self)(metric_id \<mapsto>
                           \<lparr>cm_metric_id = metric_id, cm_value = PyFloat 0, cm_individual_scores = None\<rparr>)\<rparr> \<and>
           get_or_execute_metric mf d metric_id weight data self =
             (Inr (Some (zero_metric metric_id weight)), self') \<and>
           evaluate_question_loop mf d data ((metric_id, weight) # rest) metric_results self =
             evaluate_question_loop mf d data rest (metric_results @ [zero_metric metric_id weight]) self' \<and>
           (\<forall>i w s e s'. get_or_execute_metric mf d i w data s = (Inl e, s') \<longrightarrow>
                          metric_cache s' = metric_cache s)"
  using assms
  by (auto simp: get_or_execute_metric_def execute_metric_def metric_function_def
      score_and_details_def zero_metric_def Let_def
      split: option.splits sum.splits prod.splits if_splits)

theorem metric_failure_scores_zero_witness:
  "MetricId_of ''m1'' = None \<and>
   MetricId_of ''answer_relevance'' = Some ANSWER_RELEVANCE \<and>
   example_metrics ANSWER_RELEVANCE False no_test_cases = Inl (RuntimeError ''malformed response'') \<and>
   metric_cache (GQMFramework_init zero_weight_config) ''answer_relevance'' = None \<and>
   evaluate_question_loop example_metrics False no_test_cases
      [(''answer_relevance'', 2), (''m1'', 3), (''faithfulness'', 1)] [] (GQMFramework_init zero_weight_config) =
     (Inr [zero_metric ''answer_relevance'' 2, zero_metric ''m1'' 3,
           \<lparr>mr_metric_id = ''faithfulness'', mr_value = PyFloat 0.8, mr_weight = 1, mr_individual_scores = None\<rparr>],
      \<lparr>config = zero_weight_config,
       metric_cache = [''answer_relevance'' \<mapsto> \<lparr>cm_metric_id = ''answer_relevance'', cm_value = PyFloat 0, cm_individual_scores = None\<rparr>,
                       ''m1'' \<mapsto> \<lparr>cm_metric_id = ''m1'', cm_value = PyFloat 0, cm_individual_scores = None\<rparr>,
                       ''faithfulness'' \<mapsto> \<lparr>cm_metric_id = ''faithfulness'', cm_value = PyFloat 0.8, cm_individual_scores = None\<rparr>],
       executed = [''answer_relevance'', ''m1'', ''faithfulness''],
       error_log = [Executor_failed_to_execute_metric ''answer_relevance'' (RuntimeError ''malformed response''),
                    Unknown_metric_ID ''m1'']\<rparr>)"
  using metric_failure_scores_zero[of "''answer_relevance''" example_metrics False no_test_cases
      "GQMFramework_init zero_weight_config" 2 "[(''m1'', 3), (''faithfulness'', 1)]" "[]"]
  by (simp add: MetricId_of_def example_metrics_def GQMFramework_init_def get_or_execute_metric_def
      execute_metric_def metric_function_def score_and_details_def zero_metric_def)

lemma execute_metric_shape:
  "fst (execute_metric mf d metric_id data) = PyDict score details \<Longrightarrow>
   d \<and> (\<exists>s ds. score = Some s \<and> details = Some ds)"
  by (auto simp: execute_metric_def metric_function_def
      split: option.splits sum.splits metric_outcome.splits if_splits)

lemma score_and_details_defined:
  "\<exists>p. fst (execute_metric mf d metric_id data) = PyNone \<or>
       score_and_details d (fst (execute_metric mf d metric_id data)) = Inr p"
  by (auto simp: execute_metric_def metric_function_def score_and_details_def
      split: option.splits sum.splits metric_outcome.splits if_splits)



subsection \<open>A whole run\<close>

lemma evaluate_facts:
  assumes run: "evaluate mf d query tcs sys s0 = (r, s')"
  shows "run_rel mf d (fst (test_rag_system query tcs sys s0)) s0 s' \<and>
         (\<forall>res. r = Inr res \<longrightarrow>
            list_all2 (goal_ok (produces mf d (fst (test_rag_system query tcs sys s0)) s0) s')
              (goals (config s0)) (er_goals res))"
proof -
  obtain batch sys1 s1 where t: "test_rag_system query tcs sys s0 = (batch, sys1, s1)"
    by (cases "test_rag_system query tcs sys s0") auto
  have same: "metric_cache s1 = metric_cache s0" "executed s1 = executed s0" "config s1 = config s0"
    using test_rag_system_facts[OF t] by simp_all
  have g: "evaluate_goals mf d batch s1 = (r, s')" using run t by (simp add: evaluate_def)
  have p: "produces mf d batch s1 = produces mf d batch s0"
    by (rule ext) (simp add: produces_def same)
  have "run_rel mf d batch s1 s'" using evaluate_goals_facts[OF g] by simp
  then have "run_rel mf d batch s0 s'" by (simp add: run_rel_def same)
  then show ?thesis using evaluate_goals_facts[OF g] t p same by simp
qed

lemma question_ok_reference:
  assumes ok: "question_ok P s' qc qr" and ref: "(i, w) \<in> set (qc_metrics qc)" and P: "P i"
  shows "\<exists>mr \<in> set (qr_metrics qr). mr_metric_id mr = i \<and> mr_weight mr = w \<and> metric_from_cache s' mr"
proof -
  have "(i, w) \<in> set (filter (\<lambda>(i, w). P i) (qc_metrics qc))" using ref P by simp
  then have "(i, w) \<in> set (map (\<lambda>mr. (mr_metric_id mr, mr_weight mr)) (qr_metrics qr))"
    using ok by (simp add: question_ok_def)
  then obtain mr where "mr \<in> set (qr_metrics qr)" "mr_metric_id mr = i" "mr_weight mr = w" by auto
  then show ?thesis using ok by (auto simp: question_ok_def list_all_iff)
qed

lemma question_ok_ids:
  assumes ok: "question_ok P s' qc qr" and "mr \<in> set (qr_metrics qr)"
  shows "P (mr_metric_id mr)"
proof -
  have eq: "map (\<lambda>mr. (mr_metric_id mr, mr_weight mr)) (qr_metrics qr) = filter (\<lambda>(i, w). P i) (qc_metrics qc)"
    using ok by (simp add: question_ok_def)
  have "(mr_metric_id mr, mr_weight mr) \<in> set (map (\<lambda>mr. (mr_metric_id mr, mr_weight mr)) (qr_metrics qr))"
    using assms(2) by force
  then have "(mr_metric_id mr, mr_weight mr) \<in> set (filter (\<lambda>(i, w). P i) (qc_metrics qc))"
    unfolding eq .
  then show ?thesis by simp
qed

lemma no_data_run_eq:
  "no_data_run =
     (Inr no_data_result,
      \<lparr>config = no_data_config,
       metric_cache = [''faithfulness'' \<mapsto> \<lparr>cm_metric_id = ''faithfulness'', cm_value = PyFloat 0.8, cm_individual_scores = None\<rparr>],
       executed = [''multi_hop_reasoning'', ''faithfulness'', ''multi_hop_reasoning''],
       error_log = [Failed_to_process_test_case ''q1'' (RuntimeError ''timeout'')]\<rparr>)"
  by (simp add: no_data_run_def no_data_result_def evaluate_def test_rag_system_def rag_system_query_def
      example_query_def example_test_cases_def example_rag_system_def
      evaluate_goals_def evaluate_goal_def evaluate_question_def get_or_execute_metric_def
      execute_metric_def metric_function_def score_and_details_def GQMFramework_init_def
      no_data_config_def MetricId_of_def example_metrics_def)

lemma example_execute:
  "fst (execute_metric example_metrics False ''faithfulness'' b) = PyNumber (PyFloat 0.8)"
  "fst (execute_metric example_metrics d ''multi_hop_reasoning'' b) = PyNone"
  by (simp_all add: execute_metric_def metric_function_def MetricId_of_def example_metrics_def)

lemma first_run_eq:
  "first_run =
     (Inr (scenario_result ''faithfulness'' ''bertscore''),
      \<lparr>pl_config = scenario_config ''faithfulness'' ''bertscore'',
       framework =
         \<lparr>config = scenario_config ''faithfulness'' ''bertscore'',
          metric_cache = [''faithfulness'' \<mapsto> \<lparr>cm_metric_id = ''faithfulness'', cm_value = PyFloat 0.8, cm_individual_scores = None\<rparr>,
                          ''bertscore'' \<mapsto> \<lparr>cm_metric_id = ''bertscore'', cm_value = PyFloat 0.4, cm_individual_scores = None\<rparr>],
          executed = [''faithfulness'', ''bertscore''],
          error_log = [Failed_to_process_test_case ''q1'' (RuntimeError ''timeout'')]\<rparr>\<rparr>)"
  by (simp add: first_run_def EvaluationPipeline_evaluate_def EvaluationPipeline_init_def
      evaluate_def test_rag_system_def rag_system_query_def
      example_query_def example_test_cases_def example_rag_system_def
      run_defs scenario_config_def
      scenario_result_def scenario_goal_def scenario_question_def
      example_metrics_def score_defs)

lemma second_run_eq:
  "second_run =
     (Inr (scenario_result ''faithfulness'' ''bertscore''),
      \<lparr>pl_config = scenario_config ''faithfulness'' ''bertscore'',
       framework =
         \<lparr>config = scenario_config ''faithfulness'' ''bertscore'',
          metric_cache = [''faithfulness'' \<mapsto> \<lparr>cm_metric_id = ''faithfulness'', cm_value = PyFloat 0.8, cm_individual_scores = None\<rparr>,
                          ''bertscore'' \<mapsto> \<lparr>cm_metric_id = ''bertscore'', cm_value = PyFloat 0.4, cm_individual_scores = None\<rparr>],
          executed = [''faithfulness'', ''bertscore''],
          error_log = [Failed_to_process_test_case ''q1'' (RuntimeError ''timeout''),
                       Failed_to_process_test_case ''q1'' (RuntimeError ''timeout'')]\<rparr>\<rparr>)"
  by (simp add: second_run_def first_run_eq EvaluationPipeline_evaluate_def
      evaluate_def test_rag_system_def rag_system_query_def
      example_query_def example_test_cases_def example_rag_system_def
      evaluate_goals_def evaluate_goal_def evaluate_question_def get_or_execute_metric_def
      scenario_config_def scenario_result_def scenario_goal_def scenario_question_def score_defs)

text \<open>
  C2 as stated fails for a metric without data: \<^verbatim>\<open>None\<close> is returned before the cache
  is written, so the metric is executed again for every question that references it.
  In the run below two questions reference multi-hop reasoning and it is executed twice.
\<close>

theorem no_data_metric_recomputed_counterexample:
  "fst no_data_run = Inr no_data_result \<and>
   executed (GQMFramework_init no_data_config) = [] \<and>
   count_list (executed (snd no_data_run)) ''multi_hop_reasoning'' = 2 \<and>
   metric_cache (snd no_data_run) ''multi_hop_reasoning'' = None"
  by (simp add: no_data_run_eq GQMFramework_init_def)

text \<open>
  C2 (as amended). In a run of \<^verbatim>\<open>evaluate\<close> that returns a result, for a metric that
  is not cached when the run starts, is referenced by at least one question and whose
  computation on the batch returns something other than \<^verbatim>\<open>None\<close>:
  \<^verbatim>\<open>execute_metric\<close> is called exactly once for it during the run; afterwards the cache
  holds one entry for it; and for every question and every weight with which the
  question references the metric, the question's result holds the \<^verbatim>\<open>MetricResult\<close>
  with the cached value, the cached breakdown and that weight.
\<close>

theorem metric_computed_once_per_run:
  assumes run: "evaluate mf d query test_cases rag_system self = (Inr result, self')"
    and fresh: "metric_cache self metric_id = None"
    and score: "fst (execute_metric mf d metric_id (fst (test_rag_system query test_cases rag_system self))) \<noteq> PyNone"
    and referenced: "\<exists>goal \<in> set (goals (config self)). \<exists>question \<in> set (gc_questions goal).
                       metric_id \<in> fst ` set (qc_metrics question)"
  shows "count_list (executed self') metric_id = count_list (executed self) metric_id + 1 \<and>
         (\<exists>cached. metric_cache self' metric_id = Some cached \<and>
            list_all2 (\<lambda>goal_config goal_result.
              list_all2 (\<lambda>question_config question_result.
                \<forall>weight. (metric_id, weight) \<in> set (qc_metrics question_config) \<longrightarrow>
                  \<lparr>mr_metric_id = metric_id, mr_value = cm_value cached, mr_weight = weight,
                   mr_individual_scores = cm_individual_scores cached\<rparr> \<in> set (qr_metrics question_result))
                (gc_questions goal_config) (gr_questions goal_result))
              (goals (config self)) (er_goals result))"
proof -
  define batch where "batch = fst (test_rag_system query test_cases rag_system self)"
  have rel: "run_rel mf d batch self self'"
    and tree: "list_all2 (goal_ok (produces mf d batch self) self') (goals (config self)) (er_goals result)"
    using evaluate_facts[OF run] by (simp_all add: batch_def)
  have P: "produces mf d batch self metric_id" using score by (simp add: produces_def batch_def)
  obtain gc qc w where gc: "gc \<in> set (goals (config self))" and qc: "qc \<in> set (gc_questions gc)"
    and w: "(metric_id, w) \<in> set (qc_metrics qc)"
    using referenced by auto
  obtain gr where "goal_ok (produces mf d batch self) self' gc gr"
    using tree gc by (auto simp: in_set_conv_nth list_all2_conv_all_nth)
  then obtain qr where "question_ok (produces mf d batch self) self' qc qr"
    using qc by (auto simp: goal_ok_def in_set_conv_nth list_all2_conv_all_nth)
  from question_ok_reference[OF this w P]
  obtain mr where "mr_metric_id mr = metric_id" "metric_from_cache self' mr" by auto
  then obtain cached where cached: "metric_cache self' metric_id = Some cached"
    by (auto simp: metric_from_cache_def split: option.splits)
  have comp: "computed mf d batch metric_id = Inr (Some (cm_value cached, cm_individual_scores cached))"
    using rel fresh cached unfolding run_rel_def by blast
  have count: "count_list (executed self') metric_id = count_list (executed self) metric_id + 1"
    using rel comp fresh cached unfolding run_rel_def by auto
  have reuse: "list_all2 (\<lambda>goal_config goal_result.
              list_all2 (\<lambda>question_config question_result.
                \<forall>weight. (metric_id, weight) \<in> set (qc_metrics question_config) \<longrightarrow>
                  \<lparr>mr_metric_id = metric_id, mr_value = cm_value cached, mr_weight = weight,
                   mr_individual_scores = cm_individual_scores cached\<rparr> \<in> set (qr_metrics question_result))
                (gc_questions goal_config) (gr_questions goal_result))
              (goals (config self)) (er_goals result)"
    using tree
  proof (rule list_all2_mono)
    fix gc gr assume "goal_ok (produces mf d batch self) self' gc gr"
    then have "list_all2 (question_ok (produces mf d batch self) self') (gc_questions gc) (gr_questions gr)"
      by (simp add: goal_ok_def)
    then show "list_all2 (\<lambda>question_config question_result.
                \<forall>weight. (metric_id, weight) \<in> set (qc_metrics question_config) \<longrightarrow>
                  \<lparr>mr_metric_id = metric_id, mr_value = cm_value cached, mr_weight = weight,
                   mr_individual_scores = cm_individual_scores cached\<rparr> \<in> set (qr_metrics question_result))
                (gc_questions gc) (gr_questions gr)"
    proof (rule list_all2_mono)
      fix qc qr assume ok: "question_ok (produces mf d batch self) self' qc qr"
      show "\<forall>weight. (metric_id, weight) \<in> set (qc_metrics qc) \<longrightarrow>
                  \<lparr>mr_metric_id = metric_id, mr_value = cm_value cached, mr_weight = weight,
                   mr_individual_scores = cm_individual_scores cached\<rparr> \<in> set (qr_metrics qr)"
      proof (intro allI impI)
        fix weight assume "(metric_id, weight) \<in> set (qc_metrics qc)"
        from question_ok_reference[OF ok this P]
        obtain mr where mr: "mr \<in> set (qr_metrics qr)" "mr_metric_id mr = metric_id"
          "mr_weight mr = weight" "metric_from_cache self' mr" by auto
        then have "mr = \<lparr>mr_metric_id = metric_id, mr_value = cm_value cached, mr_weight = weight,
                   mr_individual_scores = cm_individual_scores cached\<rparr>"
          using cached by (simp add: metric_from_cache_def)
        with mr(1) show "\<lparr>mr_metric_id = metric_id, mr_value = cm_value cached, mr_weight = weight,
                   mr_individual_scores = cm_individual_scores cached\<rparr> \<in> set (qr_metrics qr)" by simp
      qed
    qed
  qed
  show ?thesis using count cached reuse by blast
qed

theorem metric_computed_once_per_run_witness:
  "evaluate example_metrics False example_query example_test_cases example_rag_system
     (GQMFramework_init no_data_config) = (Inr no_data_result, snd no_data_run) \<and>
   metric_cache (GQMFramework_init no_data_config) ''faithfulness'' = None \<and>
   executed (GQMFramework_init no_data_config) = [] \<and>
   count_list (executed (snd no_data_run)) ''faithfulness'' = 1 \<and>
   map (map qr_metrics \<circ> gr_questions) (er_goals no_data_result) =
     [[[\<lparr>mr_metric_id = ''faithfulness'', mr_value = PyFloat 0.8, mr_weight = 2, mr_individual_scores = None\<rparr>],
       [\<lparr>mr_metric_id = ''faithfulness'', mr_value = PyFloat 0.8, mr_weight = 3, mr_individual_scores = None\<rparr>]]]"
  using metric_computed_once_per_run[of example_metrics False example_query example_test_cases
      example_rag_system "GQMFramework_init no_data_config" no_data_result "snd no_data_run"
      "''faithfulness''"]
    no_data_run_eq[unfolded no_data_run_def]
  by (simp add: example_execute no_data_run_eq GQMFramework_init_def no_data_config_def no_data_result_def)

text \<open>
  What holds of a metric without data, whatever the weights: in a run of
  \<^verbatim>\<open>evaluate\<close>, for a metric that is not cached when the run starts and whose
  computation on the batch returns \<^verbatim>\<open>None\<close>, the cache holds no entry for it after the
  run; and when the run returns a result, no question's result holds a
  \<^verbatim>\<open>MetricResult\<close> for it, and every question's result holds exactly the configured
  references that are cached at the start or whose computation returns something other
  than \<^verbatim>\<open>None\<close>, in the configured order and with the configured weights.
\<close>

lemma no_data_metric_left_out:
  assumes run: "evaluate mf d query test_cases rag_system self = (r, self')"
    and fresh: "metric_cache self metric_id = None"
    and no_data: "fst (execute_metric mf d metric_id (fst (test_rag_system query test_cases rag_system self))) = PyNone"
  shows "metric_cache self' metric_id = None \<and>
         (\<forall>result. r = Inr result \<longrightarrow>
            list_all2 (\<lambda>goal_config goal_result.
              list_all2 (\<lambda>question_config question_result.
                  metric_id \<notin> mr_metric_id ` set (qr_metrics question_result) \<and>
                  map (\<lambda>mr. (mr_metric_id mr, mr_weight mr)) (qr_metrics question_result) =
                    filter (\<lambda>(i, w). metric_cache self i \<noteq> None \<or>
                              fst (execute_metric mf d i (fst (test_rag_system query test_cases rag_system self))) \<noteq> PyNone)
                      (qc_metrics question_config))
                (gc_questions goal_config) (gr_questions goal_result))
              (goals (config self)) (er_goals result))"
proof -
  define batch where "batch = fst (test_rag_system query test_cases rag_system self)"
  have rel: "run_rel mf d batch self self'"
    and tree: "\<And>result. r = Inr result \<Longrightarrow>
      list_all2 (goal_ok (produces mf d batch self) self') (goals (config self)) (er_goals result)"
    using evaluate_facts[OF run] by (simp_all add: batch_def)
  have nP: "\<not> produces mf d batch self metric_id" using fresh no_data by (simp add: produces_def batch_def)
  have cache: "metric_cache self' metric_id = None"
  proof (cases "metric_cache self' metric_id")
    case (Some cr)
    with rel fresh have "computed mf d batch metric_id = Inr (Some (cm_value cr, cm_individual_scores cr))"
      unfolding run_rel_def by blast
    then have "fst (execute_metric mf d metric_id batch) \<noteq> PyNone" by (rule computed_Some_not_None)
    with no_data show ?thesis by (simp add: batch_def)
  qed simp
  have "list_all2 (\<lambda>goal_config goal_result.
              list_all2 (\<lambda>question_config question_result.
                  metric_id \<notin> mr_metric_id ` set (qr_metrics question_result) \<and>
                  map (\<lambda>mr. (mr_metric_id mr, mr_weight mr)) (qr_metrics question_result) =
                    filter (\<lambda>(i, w). metric_cache self i \<noteq> None \<or> fst (execute_metric mf d i batch) \<noteq> PyNone)
                      (qc_metrics question_config))
                (gc_questions goal_config) (gr_questions goal_result))
              (goals (config self)) (er_goals result)" if "r = Inr result" for result
    using tree[OF that]
  proof (rule list_all2_mono)
    fix gc gr assume "goal_ok (produces mf d batch self) self' gc gr"
    then have "list_all2 (question_ok (produces mf d batch self) self') (gc_questions gc) (gr_questions gr)"
      by (simp add: goal_ok_def)
    then show "list_all2 (\<lambda>question_config question_result.
                  metric_id \<notin> mr_metric_id ` set (qr_metrics question_result) \<and>
                  map (\<lambda>mr. (mr_metric_id mr, mr_weight mr)) (qr_metrics question_result) =
                    filter (\<lambda>(i, w). metric_cache self i \<noteq> None \<or> fst (execute_metric mf d i batch) \<noteq> PyNone)
                      (qc_metrics question_config))
                (gc_questions gc) (gr_questions gr)"
    proof (rule list_all2_mono)
      fix qc qr assume ok: "question_ok (produces mf d batch self) self' qc qr"
      have 1: "metric_id \<notin> mr_metric_id ` set (qr_metrics qr)"
        using question_ok_ids[OF ok] nP by auto
      have 2: "map (\<lambda>mr. (mr_metric_id mr, mr_weight mr)) (qr_metrics qr) =
                    filter (\<lambda>(i, w). metric_cache self i \<noteq> None \<or> fst (execute_metric mf d i batch) \<noteq> PyNone)
                      (qc_metrics qc)"
        using ok by (simp add: question_ok_def produces_def)
      show "metric_id \<notin> mr_metric_id ` set (qr_metrics qr) \<and>
                  map (\<lambda>mr. (mr_metric_id mr, mr_weight mr)) (qr_metrics qr) =
                    filter (\<lambda>(i, w). metric_cache self i \<noteq> None \<or> fst (execute_metric mf d i batch) \<noteq> PyNone)
                      (qc_metrics qc)"
        using 1 2 by blast
    qed
  qed
  then show ?thesis using cache unfolding batch_def by blast
qed


text \<open>
  C4. The claim's last part fails on the code by the missing guard of
  \<^verbatim>\<open>QuestionResult.score\<close>, the defect of C3. A question references multi-hop
  reasoning, which has no data on the batch, and faithfulness with the weight 0. The run
  leaves multi-hop reasoning out of the cache and out of the question's result, as the
  claim says; the one metric that remains has the weight 0, and the question's score
  raises \<^verbatim>\<open>ZeroDivisionError\<close>, where the weighted average of the specification is 0.
  With the flag on and a remaining metric whose score is a \<^verbatim>\<open>numpy.float64\<close>, the
  score is NaN.
\<close>

theorem no_data_and_zero_weight_raises:
  "fst (evaluate example_metrics False example_query example_test_cases example_rag_system
          (GQMFramework_init (no_data_zero_weight_config ''faithfulness''))) =
     Inr (no_data_zero_weight_result ''faithfulness'' (PyFloat 0.8) None) \<and>
   metric_cache (snd (evaluate example_metrics False example_query example_test_cases example_rag_system
          (GQMFramework_init (no_data_zero_weight_config ''faithfulness'')))) ''multi_hop_reasoning'' = None \<and>
   QuestionResult_score (no_data_zero_weight_question ''faithfulness'' (PyFloat 0.8) None) =
     Inl ZeroDivisionError \<and>
   weighted_average [(0.8, 0)] = 0 \<and>
   fst (evaluate example_metrics True example_query example_test_cases example_rag_system
          (GQMFramework_init (no_data_zero_weight_config ''answer_correctness''))) =
     Inr (no_data_zero_weight_result ''answer_correctness'' (NpFloat 0.6)
            (Some [JObj [(''query'', JStr ''q''), (''score'', JNum (PyFloat 0.6))]])) \<and>
   QuestionResult_score (no_data_zero_weight_question ''answer_correctness'' (NpFloat 0.6)
            (Some [JObj [(''query'', JStr ''q''), (''score'', JNum (PyFloat 0.6))]])) =
     Inr (Number True NaN)"
  by (simp add: evaluate_def test_rag_system_def rag_system_query_def
      example_query_def example_test_cases_def example_rag_system_def run_defs
      no_data_zero_weight_config_def no_data_zero_weight_result_def
      no_data_zero_weight_question_def example_metrics_def score_defs weighted_average_def)

text \<open>
  C7 as stated fails: the cache is created in the constructor of the framework and no
  call of \<^verbatim>\<open>evaluate\<close> clears it. The second of two calls on one pipeline begins with
  the entries of the first and executes no metric.
\<close>

theorem second_run_recomputes_nothing_counterexample:
  "metric_cache (framework (snd first_run)) ''faithfulness'' =
     Some \<lparr>cm_metric_id = ''faithfulness'', cm_value = PyFloat 0.8, cm_individual_scores = None\<rparr> \<and>
   metric_cache (framework (snd first_run)) ''bertscore'' =
     Some \<lparr>cm_metric_id = ''bertscore'', cm_value = PyFloat 0.4, cm_individual_scores = None\<rparr> \<and>
   executed (framework (snd first_run)) = [''faithfulness'', ''bertscore''] \<and>
   fst second_run = Inr (scenario_result ''faithfulness'' ''bertscore'') \<and>
   executed (framework (snd second_run)) = [''faithfulness'', ''bertscore'']"
  by (simp add: first_run_eq second_run_eq)

lemma EvaluationPipeline_evaluate_framework:
  assumes "EvaluationPipeline_evaluate mf d query generate rag_system test_cases force pipeline = (r, pipeline')"
  shows "case (case test_cases of None \<Rightarrow> generate_test_cases generate force pipeline
                                 | Some given \<Rightarrow> Inr given) of
           Inl e \<Rightarrow> r = Inl e \<and> pipeline' = pipeline
         | Inr cases \<Rightarrow>
             framework pipeline' = snd (evaluate mf d query cases rag_system (framework pipeline)) \<and>
             pl_config pipeline' = pl_config pipeline \<and>
             (case fst (evaluate mf d query cases rag_system (framework pipeline)) of
                Inl e \<Rightarrow> r = Inl e
              | Inr result \<Rightarrow>
                  (case EvaluationResult_score result of Inl e \<Rightarrow> r = Inl e | Inr s \<Rightarrow> r = Inr result))"
  using assms
  by (auto simp: EvaluationPipeline_evaluate_def split: option.splits sum.splits prod.splits)

text \<open>
  C7 (as amended). The cache belongs to the framework object: a new pipeline's framework
  has an empty cache; a call of the pipeline's \<^verbatim>\<open>evaluate\<close> that gets or generates
  test cases leaves in the pipeline the framework as \<^verbatim>\<open>GQMFramework.evaluate\<close> leaves it,
  also when reading the overall score raises, and leaves the pipeline as it is when the
  generation of test cases raises, so that the next call runs on the framework left by
  the call before; and a call of \<^verbatim>\<open>GQMFramework.evaluate\<close> keeps every entry that the
  cache holds when it begins, does not execute the metrics of these entries, and gives
  every \<^verbatim>\<open>MetricResult\<close> for such a metric the value and the breakdown of the entry.
\<close>

theorem cache_kept_between_runs:
  "metric_cache (framework (EvaluationPipeline_init cfg)) = Map.empty \<and>
   (EvaluationPipeline_evaluate mf d query generate rag_system given force pipeline = (r, pipeline') \<longrightarrow>
      (case (case given of None \<Rightarrow> generate_test_cases generate force pipeline
                         | Some test_cases \<Rightarrow> Inr test_cases) of
         Inl e \<Rightarrow> r = Inl e \<and> pipeline' = pipeline
       | Inr cases \<Rightarrow>
           framework pipeline' = snd (evaluate mf d query cases rag_system (framework pipeline)) \<and>
           pl_config pipeline' = pl_config pipeline \<and>
           (case fst (evaluate mf d query cases rag_system (framework pipeline)) of
              Inl e \<Rightarrow> r = Inl e
            | Inr result \<Rightarrow>
                (case EvaluationResult_score result of Inl e \<Rightarrow> r = Inl e | Inr s \<Rightarrow> r = Inr result)))) \<and>
   (evaluate mf d query test_cases rag_system self = (r', self') \<longrightarrow>
      (\<forall>i cached. metric_cache self i = Some cached \<longrightarrow>
         metric_cache self' i = Some cached \<and>
         count_list (executed self') i = count_list (executed self) i) \<and>
      (\<forall>result. r' = Inr result \<longrightarrow>
         (\<forall>goal_result \<in> set (er_goals result). \<forall>question_result \<in> set (gr_questions goal_result).
            \<forall>mr \<in> set (qr_metrics question_result). \<forall>cached.
              metric_cache self (mr_metric_id mr) = Some cached \<longrightarrow>
                mr_value mr = cm_value cached \<and> mr_individual_scores mr = cm_individual_scores cached)))"
proof (intro conjI impI allI ballI)
  show "metric_cache (framework (EvaluationPipeline_init cfg)) = Map.empty"
    by (simp add: EvaluationPipeline_init_def GQMFramework_init_def)
next
  assume "EvaluationPipeline_evaluate mf d query generate rag_system given force pipeline = (r, pipeline')"
  then show "case (case given of None \<Rightarrow> generate_test_cases generate force pipeline
                         | Some test_cases \<Rightarrow> Inr test_cases) of
         Inl e \<Rightarrow> r = Inl e \<and> pipeline' = pipeline
       | Inr cases \<Rightarrow>
           framework pipeline' = snd (evaluate mf d query cases rag_system (framework pipeline)) \<and>
           pl_config pipeline' = pl_config pipeline \<and>
           (case fst (evaluate mf d query cases rag_system (framework pipeline)) of
              Inl e \<Rightarrow> r = Inl e
            | Inr result \<Rightarrow>
                (case EvaluationResult_score result of Inl e \<Rightarrow> r = Inl e | Inr s \<Rightarrow> r = Inr result))"
    by (rule EvaluationPipeline_evaluate_framework)
next
  fix i cached
  assume run: "evaluate mf d query test_cases rag_system self = (r', self')"
    and c: "metric_cache self i = Some cached"
  have rel: "run_rel mf d (fst (test_rag_system query test_cases rag_system self)) self self'"
    using evaluate_facts[OF run] by simp
  show "metric_cache self' i = Some cached" using rel c unfolding run_rel_def by blast
  show "count_list (executed self') i = count_list (executed self) i"
    using rel c unfolding run_rel_def by auto
next
  fix result goal_result question_result mr cached
  assume run: "evaluate mf d query test_cases rag_system self = (r', self')"
    and r: "r' = Inr result"
    and g: "goal_result \<in> set (er_goals result)"
    and q: "question_result \<in> set (gr_questions goal_result)"
    and m: "mr \<in> set (qr_metrics question_result)"
    and c: "metric_cache self (mr_metric_id mr) = Some cached"
  define batch where "batch = fst (test_rag_system query test_cases rag_system self)"
  have rel: "run_rel mf d batch self self'"
    and tree: "list_all2 (goal_ok (produces mf d batch self) self') (goals (config self)) (er_goals result)"
    using evaluate_facts[OF run] r by (simp_all add: batch_def)
  obtain gc where "goal_ok (produces mf d batch self) self' gc goal_result"
    using tree g by (auto simp: in_set_conv_nth list_all2_conv_all_nth)
  then obtain qc where "question_ok (produces mf d batch self) self' qc question_result"
    using q by (auto simp: goal_ok_def in_set_conv_nth list_all2_conv_all_nth)
  then have "metric_from_cache self' mr" using m by (simp add: question_ok_def list_all_iff)
  moreover have "metric_cache self' (mr_metric_id mr) = Some cached"
    using rel c unfolding run_rel_def by blast
  ultimately show "mr_value mr = cm_value cached" "mr_individual_scores mr = cm_individual_scores cached"
    by (simp_all add: metric_from_cache_def)
qed

theorem cache_kept_between_runs_witness:
  "EvaluationPipeline_evaluate example_metrics False example_query no_generator
     example_rag_system (Some example_test_cases) False (snd first_run) = second_run \<and>
   framework (snd second_run) =
     snd (evaluate example_metrics False example_query example_test_cases example_rag_system
            (framework (snd first_run))) \<and>
   metric_cache (framework (snd first_run)) ''bertscore'' =
     Some \<lparr>cm_metric_id = ''bertscore'', cm_value = PyFloat 0.4, cm_individual_scores = None\<rparr> \<and>
   metric_cache (framework (snd second_run)) ''bertscore'' =
     Some \<lparr>cm_metric_id = ''bertscore'', cm_value = PyFloat 0.4, cm_individual_scores = None\<rparr> \<and>
   count_list (executed (framework (snd second_run))) ''bertscore'' =
     count_list (executed (framework (snd first_run))) ''bertscore''"
proof -
  let ?ev = "evaluate example_metrics False example_query example_test_cases example_rag_system
               (framework (snd first_run))"
  have h: "EvaluationPipeline_evaluate example_metrics False example_query no_generator
             example_rag_system (Some example_test_cases) False (snd first_run) =
             (fst second_run, snd second_run)"
    by (simp add: second_run_def)
  have c: "metric_cache (framework (snd first_run)) ''bertscore'' =
             Some \<lparr>cm_metric_id = ''bertscore'', cm_value = PyFloat 0.4, cm_individual_scores = None\<rparr>"
    by (simp add: first_run_eq)
  note t = cache_kept_between_runs[of "scenario_config ''faithfulness'' ''bertscore''" example_metrics
      False example_query no_generator example_rag_system "Some example_test_cases" False
      "snd first_run" "fst second_run" "snd second_run" example_test_cases
      "framework (snd first_run)" "fst ?ev" "snd ?ev"]
  from t h have f: "framework (snd second_run) = snd ?ev" by simp
  have e: "?ev = (fst ?ev, snd ?ev)" by simp
  from t e c have "metric_cache (snd ?ev) ''bertscore'' =
                   Some \<lparr>cm_metric_id = ''bertscore'', cm_value = PyFloat 0.4, cm_individual_scores = None\<rparr> \<and>
                 count_list (executed (snd ?ev)) ''bertscore'' =
                   count_list (executed (framework (snd first_run))) ''bertscore''"
    by blast
  with h c f show ?thesis by simp
qed

subsection \<open>Serialisation\<close>

lemma metric_to_dict_fields:
  "finite_number (mr_value m) \<Longrightarrow>
   number_field ''value'' (metric_to_dict m) = Some (number_real (mr_value m))"
  "number_field ''weight'' (metric_to_dict m) = Some (mr_weight m)"
  by (simp_all add: number_field_def metric_to_dict_def finite_number_def number_real_def)

lemma recorded_pairs_metrics:
  "list_all (\<lambda>m. finite_number (mr_value m)) ms \<Longrightarrow>
   recorded_pairs ''value'' (map metric_to_dict ms) =
     Some (map (\<lambda>m. (number_real (mr_value m), mr_weight m)) ms)"
  by (induction ms) (simp_all add: recorded_pairs_def metric_to_dict_fields)

lemma sum_number_real_zip:
  "length ss = length ws \<Longrightarrow>
   (\<Sum>(s, w)\<leftarrow>zip ss ws. number_real s * w) = (\<Sum>(s, w)\<leftarrow>zip (map number_real ss) ws. s * w)"
  by (induction ss ws rule: list_induct2) simp_all

lemma sum_zip_map:
  "(\<Sum>(s, x)\<leftarrow>zip ss xs. number_real s * f x) =
   (\<Sum>(s, w)\<leftarrow>zip ss (map f xs). number_real s * w)"
  by (induction ss xs rule: list_induct2') simp_all

lemma guarded_number_average:
  assumes len: "length ss = length ws" and nonneg: "0 \<le> sum_list ws"
    and fin: "list_all finite_number ss"
  shows "\<exists>np. (if ws \<noteq> [] \<and> sum_list ws > 0 then number_average (zip ss ws) else PyFloat 0) =
              Number np (Finite (weighted_average (zip (map number_real ss) ws)))"
proof (cases "ws \<noteq> [] \<and> sum_list ws > 0")
  case True
  have snd: "map snd (zip ss ws) = ws" using len by simp
  have snd': "map snd (zip (map number_real ss) ws) = ws" using len by simp
  have f: "list_all (finite_number \<circ> fst) (zip ss ws)"
    using len fin by (induction ss ws rule: list_induct2) simp_all
  have nz: "sum_list (map snd (zip ss ws)) \<noteq> 0" using True snd by simp
  have ne: "zip (map number_real ss) ws \<noteq> []" using True len by (cases ss; cases ws) simp_all
  have "number_average (zip ss ws) =
          Number (list_ex (is_numpy \<circ> fst) (zip ss ws))
            (Finite ((\<Sum>(s, w)\<leftarrow>zip (map number_real ss) ws. s * w) / sum_list ws))"
    unfolding number_average_finite[OF f nz] sum_number_real_zip[OF len] snd ..
  moreover have "weighted_average (zip (map number_real ss) ws) =
                   (\<Sum>(s, w)\<leftarrow>zip (map number_real ss) ws. s * w) / sum_list ws"
    unfolding weighted_average_def snd' using True ne by simp
  ultimately show ?thesis using True by simp
next
  case False
  then have "ws = [] \<or> sum_list ws = 0" using nonneg by auto
  moreover have "map snd (zip (map number_real ss) ws) = ws" using len by simp
  ultimately have "weighted_average (zip (map number_real ss) ws) = 0"
    by (auto simp: weighted_average_def)
  then show ?thesis using False by (auto intro: exI[of _ False])
qed

lemma QuestionResult_score_finite:
  assumes fin: "list_all (\<lambda>m. finite_number (mr_value m)) (qr_metrics q)"
    and nz: "qr_metrics q = [] \<or> sum_list (map mr_weight (qr_metrics q)) \<noteq> 0"
  shows "\<exists>np. QuestionResult_score q =
           Inr (Number np (Finite (weighted_average
                  (map (\<lambda>m. (number_real (mr_value m), mr_weight m)) (qr_metrics q)))))"
proof (cases "qr_metrics q = []")
  case True
  then show ?thesis
    by (auto simp: QuestionResult_score_empty weighted_average_def intro: exI[of _ False])
next
  case False
  let ?sw = "map (\<lambda>m. (mr_value m, mr_weight m)) (qr_metrics q)"
  have w: "sum_list (map mr_weight (qr_metrics q)) \<noteq> 0" using nz False by simp
  have snd: "map snd ?sw = map mr_weight (qr_metrics q)" by (simp add: comp_def)
  have f: "list_all (finite_number \<circ> fst) ?sw" using fin by (simp add: list_all_iff)
  have nz': "sum_list (map snd ?sw) \<noteq> 0" unfolding snd by (rule w)
  have r: "(\<Sum>(s, w)\<leftarrow>?sw. number_real s * w) =
           (\<Sum>m\<leftarrow>qr_metrics q. number_real (mr_value m) * mr_weight m)"
    by (simp add: comp_def)
  have "QuestionResult_score q =
          Inr (Number (list_ex (is_numpy \<circ> fst) ?sw)
                 (Finite ((\<Sum>m\<leftarrow>qr_metrics q. number_real (mr_value m) * mr_weight m) /
                          sum_list (map mr_weight (qr_metrics q)))))"
    unfolding QuestionResult_score_nonzero[OF w] number_average_finite[OF f nz'] r snd ..
  moreover have "weighted_average (map (\<lambda>m. (number_real (mr_value m), mr_weight m)) (qr_metrics q)) =
                   (\<Sum>m\<leftarrow>qr_metrics q. number_real (mr_value m) * mr_weight m) /
                   sum_list (map mr_weight (qr_metrics q))"
    using False w by (simp add: weighted_average_def comp_def)
  ultimately show ?thesis by simp
qed

lemma question_to_dict_Inr:
  assumes "question_to_dict q = Inr qd"
  shows "\<exists>s. QuestionResult_score q = Inr s \<and>
             qd = JObj [(''text'', JStr (qr_question_text q)), (''score'', JNum s),
                        (''weight'', JNum (PyFloat (qr_weight q))),
                        (''metrics'', JList (map metric_to_dict (qr_metrics q)))]"
  using assms by (auto simp: question_to_dict_def split: sum.splits)

lemma goal_to_dict_Inr:
  assumes "goal_to_dict g = Inr gd"
  shows "\<exists>s qds. GoalResult_score g = Inr s \<and> map question_to_dict (gr_questions g) = map Inr qds \<and>
             gd = JObj [(''name'', JStr (gr_goal_name g)), (''score'', JNum s),
                        (''weight'', JNum (PyFloat (gr_weight g))), (''questions'', JList qds)]"
  using assms by (auto simp: goal_to_dict_def split: sum.splits dest: traverse_Inr_map)

lemma to_dict_Inr:
  assumes "to_dict e = Inr doc"
  shows "\<exists>s gds. EvaluationResult_score e = Inr s \<and> map goal_to_dict (er_goals e) = map Inr gds \<and>
             doc = JObj [(''overall_score'', JNum s), (''goals'', JList gds)]"
  using assms by (auto simp: to_dict_def split: sum.splits dest: traverse_Inr_map)

lemma question_to_dict_defined:
  assumes fin: "list_all (\<lambda>m. finite_number (mr_value m)) (qr_metrics q)"
    and nz: "qr_metrics q = [] \<or> sum_list (map mr_weight (qr_metrics q)) \<noteq> 0"
  shows "\<exists>s qd. QuestionResult_score q = Inr s \<and> finite_number s \<and>
           question_to_dict q = Inr qd \<and>
           number_field ''score'' qd = Some (number_real s) \<and>
           number_field ''weight'' qd = Some (qr_weight q) \<and>
           node_consistent ''score'' ''metrics'' ''value'' qd"
proof -
  from QuestionResult_score_finite[OF fin nz] obtain np where
    s: "QuestionResult_score q =
          Inr (Number np (Finite (weighted_average
                 (map (\<lambda>m. (number_real (mr_value m), mr_weight m)) (qr_metrics q)))))"
    by blast
  let ?s = "Number np (Finite (weighted_average
                 (map (\<lambda>m. (number_real (mr_value m), mr_weight m)) (qr_metrics q))))"
  let ?qd = "JObj [(''text'', JStr (qr_question_text q)), (''score'', JNum ?s),
                   (''weight'', JNum (PyFloat (qr_weight q))),
                   (''metrics'', JList (map metric_to_dict (qr_metrics q)))]"
  have "finite_number ?s" by (simp add: finite_number_def)
  moreover have "question_to_dict q = Inr ?qd" by (simp add: question_to_dict_def s)
  moreover have "number_field ''score'' ?qd = Some (number_real ?s)"
    by (simp add: number_field_def finite_number_def number_real_def)
  moreover have "number_field ''weight'' ?qd = Some (qr_weight q)"
    by (simp add: number_field_def finite_number_def number_real_def)
  moreover have "node_consistent ''score'' ''metrics'' ''value'' ?qd"
    by (simp add: node_consistent_def number_field_def finite_number_def number_real_def
        list_field_def recorded_pairs_metrics[OF fin])
  ultimately show ?thesis using s by blast
qed

lemma questions_to_dict_defined:
  "list_all (\<lambda>q. list_all (\<lambda>m. finite_number (mr_value m)) (qr_metrics q) \<and>
                 (qr_metrics q = [] \<or> sum_list (map mr_weight (qr_metrics q)) \<noteq> 0)) qs \<Longrightarrow>
   \<exists>ss qds. map QuestionResult_score qs = map Inr ss \<and> list_all finite_number ss \<and>
        traverse question_to_dict qs = Inr qds \<and>
        recorded_pairs ''score'' qds = Some (zip (map number_real ss) (map qr_weight qs)) \<and>
        list_all (node_consistent ''score'' ''metrics'' ''value'') qds"
proof (induction qs)
  case Nil
  then show ?case by (simp add: recorded_pairs_def)
next
  case (Cons q qs)
  from Cons.prems have fin: "list_all (\<lambda>m. finite_number (mr_value m)) (qr_metrics q)"
    and nz: "qr_metrics q = [] \<or> sum_list (map mr_weight (qr_metrics q)) \<noteq> 0"
    and rest: "list_all (\<lambda>q. list_all (\<lambda>m. finite_number (mr_value m)) (qr_metrics q) \<and>
                 (qr_metrics q = [] \<or> sum_list (map mr_weight (qr_metrics q)) \<noteq> 0)) qs"
    by simp_all
  from Cons.IH[OF rest] obtain ss qds where ss: "map QuestionResult_score qs = map Inr ss"
    "list_all finite_number ss" "traverse question_to_dict qs = Inr qds"
    "recorded_pairs ''score'' qds = Some (zip (map number_real ss) (map qr_weight qs))"
    "list_all (node_consistent ''score'' ''metrics'' ''value'') qds" by blast
  from question_to_dict_defined[OF fin nz] obtain s qd where s: "QuestionResult_score q = Inr s"
    "finite_number s" "question_to_dict q = Inr qd"
    "number_field ''score'' qd = Some (number_real s)"
    "number_field ''weight'' qd = Some (qr_weight q)"
    "node_consistent ''score'' ''metrics'' ''value'' qd" by blast
  have "map QuestionResult_score (q # qs) = map Inr (s # ss)" using s(1) ss(1) by simp
  moreover have "list_all finite_number (s # ss)" using s(2) ss(2) by simp
  moreover have "traverse question_to_dict (q # qs) = Inr (qd # qds)" using s(3) ss(3) by simp
  moreover have "recorded_pairs ''score'' (qd # qds) =
                   Some (zip (map number_real (s # ss)) (map qr_weight (q # qs)))"
    using ss(4) s(4) s(5) by (simp add: recorded_pairs_def)
  moreover have "list_all (node_consistent ''score'' ''metrics'' ''value'') (qd # qds)"
    using ss(5) s(6) by simp
  ultimately show ?case by blast
qed

lemma goal_to_dict_defined:
  assumes qs: "list_all (\<lambda>q. list_all (\<lambda>m. finite_number (mr_value m)) (qr_metrics q) \<and>
                 (qr_metrics q = [] \<or> sum_list (map mr_weight (qr_metrics q)) \<noteq> 0)) (gr_questions g)"
    and w: "0 \<le> sum_list (map qr_weight (gr_questions g))"
  shows "\<exists>s gd. GoalResult_score g = Inr s \<and> finite_number s \<and>
           goal_to_dict g = Inr gd \<and>
           number_field ''score'' gd = Some (number_real s) \<and>
           number_field ''weight'' gd = Some (gr_weight g) \<and>
           node_consistent ''score'' ''questions'' ''score'' gd \<and>
           list_all (node_consistent ''score'' ''metrics'' ''value'') (list_field ''questions'' gd)"
proof -
  from questions_to_dict_defined[OF qs] obtain ss qds where
    ss: "map QuestionResult_score (gr_questions g) = map Inr ss"
    "list_all finite_number ss" "traverse question_to_dict (gr_questions g) = Inr qds"
    "recorded_pairs ''score'' qds = Some (zip (map number_real ss) (map qr_weight (gr_questions g)))"
    "list_all (node_consistent ''score'' ''metrics'' ''value'') qds" by blast
  have len: "length ss = length (map qr_weight (gr_questions g))"
    using ss(1) by (metis length_map)
  from guarded_number_average[OF len w ss(2)] obtain np where
    "(if gr_questions g \<noteq> [] \<and> sum_list (map qr_weight (gr_questions g)) > 0
      then number_average (zip ss (map qr_weight (gr_questions g))) else PyFloat 0) =
     Number np (Finite (weighted_average (zip (map number_real ss) (map qr_weight (gr_questions g)))))"
    by auto
  then have s: "GoalResult_score g =
      Inr (Number np (Finite (weighted_average (zip (map number_real ss) (map qr_weight (gr_questions g))))))"
    unfolding GoalResult_score_defined[OF ss(1)] by simp
  let ?s = "Number np (Finite (weighted_average (zip (map number_real ss) (map qr_weight (gr_questions g)))))"
  let ?gd = "JObj [(''name'', JStr (gr_goal_name g)), (''score'', JNum ?s),
                   (''weight'', JNum (PyFloat (gr_weight g))), (''questions'', JList qds)]"
  have "finite_number ?s" by (simp add: finite_number_def)
  moreover have "goal_to_dict g = Inr ?gd" by (simp add: goal_to_dict_def s ss(3))
  moreover have "number_field ''score'' ?gd = Some (number_real ?s)"
    by (simp add: number_field_def finite_number_def number_real_def)
  moreover have "number_field ''weight'' ?gd = Some (gr_weight g)"
    by (simp add: number_field_def finite_number_def number_real_def)
  moreover have "node_consistent ''score'' ''questions'' ''score'' ?gd"
    by (simp add: node_consistent_def number_field_def finite_number_def number_real_def
        list_field_def ss(4))
  moreover have "list_all (node_consistent ''score'' ''metrics'' ''value'') (list_field ''questions'' ?gd)"
    using ss(5) by (simp add: list_field_def)
  ultimately show ?thesis using s by blast
qed

lemma goals_to_dict_defined:
  "list_all (\<lambda>g. list_all (\<lambda>q. list_all (\<lambda>m. finite_number (mr_value m)) (qr_metrics q) \<and>
                    (qr_metrics q = [] \<or> sum_list (map mr_weight (qr_metrics q)) \<noteq> 0)) (gr_questions g) \<and>
                 0 \<le> sum_list (map qr_weight (gr_questions g))) gs \<Longrightarrow>
   \<exists>ss gds. map GoalResult_score gs = map Inr ss \<and> list_all finite_number ss \<and>
        traverse goal_to_dict gs = Inr gds \<and>
        recorded_pairs ''score'' gds = Some (zip (map number_real ss) (map gr_weight gs)) \<and>
        list_all (\<lambda>goal. node_consistent ''score'' ''questions'' ''score'' goal \<and>
                       list_all (node_consistent ''score'' ''metrics'' ''value'') (list_field ''questions'' goal)) gds"
proof (induction gs)
  case Nil
  then show ?case by (simp add: recorded_pairs_def)
next
  case (Cons g gs)
  from Cons.prems have qs: "list_all (\<lambda>q. list_all (\<lambda>m. finite_number (mr_value m)) (qr_metrics q) \<and>
                 (qr_metrics q = [] \<or> sum_list (map mr_weight (qr_metrics q)) \<noteq> 0)) (gr_questions g)"
    and w: "0 \<le> sum_list (map qr_weight (gr_questions g))"
    and rest: "list_all (\<lambda>g. list_all (\<lambda>q. list_all (\<lambda>m. finite_number (mr_value m)) (qr_metrics q) \<and>
                    (qr_metrics q = [] \<or> sum_list (map mr_weight (qr_metrics q)) \<noteq> 0)) (gr_questions g) \<and>
                 0 \<le> sum_list (map qr_weight (gr_questions g))) gs"
    by simp_all
  from Cons.IH[OF rest] obtain ss gds where ss: "map GoalResult_score gs = map Inr ss"
    "list_all finite_number ss" "traverse goal_to_dict gs = Inr gds"
    "recorded_pairs ''score'' gds = Some (zip (map number_real ss) (map gr_weight gs))"
    "list_all (\<lambda>goal. node_consistent ''score'' ''questions'' ''score'' goal \<and>
                       list_all (node_consistent ''score'' ''metrics'' ''value'') (list_field ''questions'' goal)) gds"
    by blast
  from goal_to_dict_defined[OF qs w] obtain s gd where s: "GoalResult_score g = Inr s"
    "finite_number s" "goal_to_dict g = Inr gd"
    "number_field ''score'' gd = Some (number_real s)"
    "number_field ''weight'' gd = Some (gr_weight g)"
    "node_consistent ''score'' ''questions'' ''score'' gd"
    "list_all (node_consistent ''score'' ''metrics'' ''value'') (list_field ''questions'' gd)" by blast
  have "map GoalResult_score (g # gs) = map Inr (s # ss)" using s(1) ss(1) by simp
  moreover have "list_all finite_number (s # ss)" using s(2) ss(2) by simp
  moreover have "traverse goal_to_dict (g # gs) = Inr (gd # gds)" using s(3) ss(3) by simp
  moreover have "recorded_pairs ''score'' (gd # gds) =
                   Some (zip (map number_real (s # ss)) (map gr_weight (g # gs)))"
    using ss(4) s(4) s(5) by (simp add: recorded_pairs_def)
  moreover have "list_all (\<lambda>goal. node_consistent ''score'' ''questions'' ''score'' goal \<and>
                       list_all (node_consistent ''score'' ''metrics'' ''value'') (list_field ''questions'' goal)) (gd # gds)"
    using ss(5) s(6) s(7) by simp
  ultimately show ?case by blast
qed

lemma scenario_to_dict:
  "to_dict (scenario_result ''faithfulness'' ''bertscore'') = Inr scenario_document"
  by (simp add: to_dict_def goal_to_dict_def question_to_dict_def metric_to_dict_def has_details_def
      scenario_document_def scenario_result_def scenario_goal_def scenario_question_def score_defs)

text \<open>
  A question whose only metric value is a \<^verbatim>\<open>numpy.float64\<close> with the weight 0: the
  score does not raise, \<^verbatim>\<open>to_dict\<close> returns a document, and the scores that the
  document records are NaN, where the weighted average of the recorded metric value
  0.6 with the recorded weight 0 is 0. The tree is the one of the run with the flag on
  for the configuration with multi-hop reasoning and answer correctness.
\<close>

lemma zero_weight_numpy_document_inconsistent:
  "to_dict (no_data_zero_weight_result ''answer_correctness'' (NpFloat 0.6)
              (Some [JObj [(''query'', JStr ''q''), (''score'', JNum (PyFloat 0.6))]])) =
     Inr zero_weight_numpy_document \<and>
   field ''score'' (list_field ''questions'' (list_field ''goals'' zero_weight_numpy_document ! 0) ! 0) =
     Some (JNum (Number True NaN)) \<and>
   recorded_pairs ''value''
     (list_field ''metrics''
        (list_field ''questions'' (list_field ''goals'' zero_weight_numpy_document ! 0) ! 0)) =
     Some [(0.6, 0)] \<and>
   weighted_average [(0.6, 0)] = 0 \<and>
   \<not> document_consistent zero_weight_numpy_document"
  by (simp add: to_dict_def goal_to_dict_def question_to_dict_def metric_to_dict_def has_details_def
      no_data_zero_weight_result_def no_data_zero_weight_question_def zero_weight_numpy_document_def
      score_defs document_consistent_def node_consistent_def recorded_pairs_def number_field_def
      list_field_def weighted_average_def finite_number_def number_real_def)

text \<open>
  C10 as stated fails for a goal whose question weights sum to a negative number: the
  goal records the score 0 of the guard, while the weighted average of the recorded
  question score 0.8 with the recorded weight \<open>-1\<close> is 0.8.
\<close>

theorem negative_weight_document_counterexample:
  "to_dict negative_weight_result = Inr negative_weight_document \<and>
   number_field ''score'' (list_field ''goals'' negative_weight_document ! 0) = Some 0 \<and>
   recorded_pairs ''score'' (list_field ''questions'' (list_field ''goals'' negative_weight_document ! 0)) =
     Some [(0.8, - 1)] \<and>
   weighted_average [(0.8, - 1)] = 0.8 \<and>
   \<not> document_consistent negative_weight_document"
  by (simp add: to_dict_def goal_to_dict_def question_to_dict_def metric_to_dict_def has_details_def
      negative_weight_result_def negative_weight_goal_def negative_weight_document_def
      score_defs document_consistent_def node_consistent_def recorded_pairs_def number_field_def
      list_field_def weighted_average_def finite_number_def number_real_def)

text \<open>
  C10 (as amended). For an evaluation result in which every metric value is a finite
  number, every question has no metrics or metric weights that do not sum to zero, the
  goal weights do not sum to a negative number and in no goal the question weights sum
  to a negative number, \<^verbatim>\<open>to_dict\<close> returns a document and the document is consistent:
  the recorded overall score is the weighted average of the recorded goal scores, every
  goal's recorded score is the weighted average of its questions' recorded scores, and
  every question's recorded score is the weighted average of its recorded metric values,
  each with the recorded weights.
\<close>

theorem serialised_scores_consistent:
  assumes metric_values: "\<forall>goal \<in> set (er_goals result). \<forall>question \<in> set (gr_questions goal).
      \<forall>metric \<in> set (qr_metrics question). finite_number (mr_value metric)"
    and metric_weights: "\<forall>goal \<in> set (er_goals result). \<forall>question \<in> set (gr_questions goal).
      qr_metrics question = [] \<or> sum_list (map mr_weight (qr_metrics question)) \<noteq> 0"
    and goal_weights: "0 \<le> sum_list (map gr_weight (er_goals result))"
    and question_weights: "\<forall>goal \<in> set (er_goals result). 0 \<le> sum_list (map qr_weight (gr_questions goal))"
  shows "\<exists>doc. to_dict result = Inr doc \<and> document_consistent doc"
proof -
  have gs: "list_all (\<lambda>g. list_all (\<lambda>q. list_all (\<lambda>m. finite_number (mr_value m)) (qr_metrics q) \<and>
                    (qr_metrics q = [] \<or> sum_list (map mr_weight (qr_metrics q)) \<noteq> 0)) (gr_questions g) \<and>
                 0 \<le> sum_list (map qr_weight (gr_questions g))) (er_goals result)"
    using metric_values metric_weights question_weights by (simp add: list_all_iff)
  from goals_to_dict_defined[OF gs] obtain ss gds where
    ss: "map GoalResult_score (er_goals result) = map Inr ss"
    "list_all finite_number ss" "traverse goal_to_dict (er_goals result) = Inr gds"
    "recorded_pairs ''score'' gds = Some (zip (map number_real ss) (map gr_weight (er_goals result)))"
    "list_all (\<lambda>goal. node_consistent ''score'' ''questions'' ''score'' goal \<and>
                       list_all (node_consistent ''score'' ''metrics'' ''value'') (list_field ''questions'' goal)) gds"
    by blast
  have len: "length ss = length (map gr_weight (er_goals result))"
    using ss(1) by (metis length_map)
  from guarded_number_average[OF len goal_weights ss(2)] obtain np where
    "(if er_goals result \<noteq> [] \<and> sum_list (map gr_weight (er_goals result)) > 0
      then number_average (zip ss (map gr_weight (er_goals result))) else PyFloat 0) =
     Number np (Finite (weighted_average (zip (map number_real ss) (map gr_weight (er_goals result)))))"
    by auto
  then have s: "EvaluationResult_score result =
      Inr (Number np (Finite (weighted_average (zip (map number_real ss) (map gr_weight (er_goals result))))))"
    unfolding EvaluationResult_score_defined[OF ss(1)] by simp
  let ?doc = "JObj [(''overall_score'',
                     JNum (Number np (Finite (weighted_average
                             (zip (map number_real ss) (map gr_weight (er_goals result))))))),
                    (''goals'', JList gds)]"
  have "to_dict result = Inr ?doc" by (simp add: to_dict_def s ss(3))
  moreover have "document_consistent ?doc"
    using ss(4) ss(5)
    by (simp add: document_consistent_def node_consistent_def number_field_def list_field_def
        finite_number_def number_real_def)
  ultimately show ?thesis by blast
qed

theorem serialised_scores_consistent_witness:
  "map (map (map (finite_number \<circ> mr_value) \<circ> qr_metrics) \<circ> gr_questions)
     (er_goals (scenario_result ''faithfulness'' ''bertscore'')) = [[[True, True]]] \<and>
   map (map (sum_list \<circ> map mr_weight \<circ> qr_metrics) \<circ> gr_questions)
     (er_goals (scenario_result ''faithfulness'' ''bertscore'')) = [[1.5]] \<and>
   sum_list (map gr_weight (er_goals (scenario_result ''faithfulness'' ''bertscore''))) = 1 \<and>
   map (sum_list \<circ> map qr_weight \<circ> gr_questions)
     (er_goals (scenario_result ''faithfulness'' ''bertscore'')) = [1] \<and>
   to_dict (scenario_result ''faithfulness'' ''bertscore'') = Inr scenario_document \<and>
   document_consistent scenario_document"
proof -
  let ?r = "scenario_result ''faithfulness'' ''bertscore''"
  have v: "\<forall>goal \<in> set (er_goals ?r). \<forall>question \<in> set (gr_questions goal).
             \<forall>metric \<in> set (qr_metrics question). finite_number (mr_value metric)"
    by (simp add: scenario_result_def scenario_goal_def scenario_question_def finite_number_def)
  have m: "\<forall>goal \<in> set (er_goals ?r). \<forall>question \<in> set (gr_questions goal).
             qr_metrics question = [] \<or> sum_list (map mr_weight (qr_metrics question)) \<noteq> 0"
    by (simp add: scenario_result_def scenario_goal_def scenario_question_def)
  have g: "0 \<le> sum_list (map gr_weight (er_goals ?r))"
    by (simp add: scenario_result_def scenario_goal_def)
  have q: "\<forall>goal \<in> set (er_goals ?r). 0 \<le> sum_list (map qr_weight (gr_questions goal))"
    by (simp add: scenario_result_def scenario_goal_def scenario_question_def)
  have v': "map (map (map (finite_number \<circ> mr_value) \<circ> qr_metrics) \<circ> gr_questions) (er_goals ?r) =
              [[[True, True]]]"
    by (simp add: scenario_result_def scenario_goal_def scenario_question_def finite_number_def)
  have m': "map (map (sum_list \<circ> map mr_weight \<circ> qr_metrics) \<circ> gr_questions) (er_goals ?r) = [[1.5]]"
    by (simp add: scenario_result_def scenario_goal_def scenario_question_def)
  have g': "sum_list (map gr_weight (er_goals ?r)) = 1"
    by (simp add: scenario_result_def scenario_goal_def)
  have q': "map (sum_list \<circ> map qr_weight \<circ> gr_questions) (er_goals ?r) = [1]"
    by (simp add: scenario_result_def scenario_goal_def scenario_question_def)
  from serialised_scores_consistent[OF v m g q] scenario_to_dict
  have "document_consistent scenario_document" by auto
  with v' m' g' q' scenario_to_dict show ?thesis by blast
qed

subsection \<open>A question without metrics\<close>

lemma map_Inr_nth:
  "map f xs = map Inr ys \<Longrightarrow> i < length xs \<Longrightarrow> i < length ys \<and> f (xs ! i) = Inr (ys ! i)"
  by (metis length_map nth_map)

lemma question_ok_no_metrics:
  assumes "question_ok P s qc qr" and "qc_metrics qc = []"
  shows "qr = \<lparr>qr_question_text = qc_text qc, qr_metrics = [], qr_weight = qc_weight qc\<rparr>"
  using assms by (cases qr) (simp add: question_ok_def)

lemma goal_ok_weights:
  assumes "goal_ok P s gc gr"
  shows "map qr_weight (gr_questions gr) = map qc_weight (gc_questions gc)"
proof -
  have "list_all2 (\<lambda>qc qr. qr_weight qr = qc_weight qc) (gc_questions gc) (gr_questions gr)"
    using assms unfolding goal_ok_def by (auto elim!: list_all2_mono simp: question_ok_def)
  then show ?thesis
    by (induction rule: list_all2_induct) simp_all
qed

lemma empty_question_run:
  "fst (evaluate example_metrics False example_query example_test_cases example_rag_system
          (GQMFramework_init empty_question_config)) = Inr empty_question_result"
  by (simp add: empty_question_result_def evaluate_def test_rag_system_def rag_system_query_def
      example_query_def example_test_cases_def example_rag_system_def run_defs
      empty_question_config_def example_metrics_def)

lemma empty_question_to_dict: "to_dict empty_question_result = Inr empty_question_document"
  by (simp add: to_dict_def goal_to_dict_def question_to_dict_def metric_to_dict_def has_details_def
      empty_question_result_def empty_question_document_def score_defs)

text \<open>
  C9. When a run of \<^verbatim>\<open>evaluate\<close> returns a result and the \<open>j\<close>-th question of the
  \<open>i\<close>-th goal is configured without metrics, the \<open>j\<close>-th question result of the \<open>i\<close>-th
  goal result is the one with the configured text and weight and an empty metrics list;
  its score is 0; in every document that \<^verbatim>\<open>to_dict\<close> returns it is the \<open>j\<close>-th entry
  of the questions of the \<open>i\<close>-th goal, with score 0 and an empty metrics list; and it
  takes part in the goal's weighted average with the score 0: when the questions all
  have a score and the configured question weights of the goal sum to a positive number,
  the goal's score is the sum of score times weight over all its questions divided by
  the sum of all their weights, in the arithmetic of the run-time numbers, which for
  finite scores is the quotient of the reals.
\<close>

theorem question_without_metrics_kept:
  assumes run: "evaluate mf d query test_cases rag_system self = (Inr result, self')"
    and i: "i < length (goals (config self))"
    and j: "j < length (gc_questions (goals (config self) ! i))"
    and none: "qc_metrics (gc_questions (goals (config self) ! i) ! j) = []"
  shows "i < length (er_goals result) \<and> j < length (gr_questions (er_goals result ! i)) \<and>
         gr_questions (er_goals result ! i) ! j =
           \<lparr>qr_question_text = qc_text (gc_questions (goals (config self) ! i) ! j),
            qr_metrics = [],
            qr_weight = qc_weight (gc_questions (goals (config self) ! i) ! j)\<rparr> \<and>
         QuestionResult_score (gr_questions (er_goals result ! i) ! j) = Inr (PyFloat 0) \<and>
         (\<forall>doc. to_dict result = Inr doc \<longrightarrow>
            i < length (list_field ''goals'' doc) \<and>
            j < length (list_field ''questions'' (list_field ''goals'' doc ! i)) \<and>
            list_field ''questions'' (list_field ''goals'' doc ! i) ! j =
              JObj [(''text'', JStr (qc_text (gc_questions (goals (config self) ! i) ! j))),
                    (''score'', JNum (PyFloat 0)),
                    (''weight'', JNum (PyFloat (qc_weight (gc_questions (goals (config self) ! i) ! j)))),
                    (''metrics'', JList [])]) \<and>
         (\<forall>scores. map QuestionResult_score (gr_questions (er_goals result ! i)) = map Inr scores \<and>
                   0 < (\<Sum>q\<leftarrow>gc_questions (goals (config self) ! i). qc_weight q) \<longrightarrow>
            scores ! j = PyFloat 0 \<and>
            GoalResult_score (er_goals result ! i) =
              Inr (number_average (zip scores (map qc_weight (gc_questions (goals (config self) ! i))))) \<and>
            (list_all finite_number scores \<longrightarrow>
               (\<exists>np. GoalResult_score (er_goals result ! i) =
                  Inr (Number np (Finite
                    ((\<Sum>(s, q)\<leftarrow>zip scores (gc_questions (goals (config self) ! i)).
                        number_real s * qc_weight q) /
                     (\<Sum>q\<leftarrow>gc_questions (goals (config self) ! i). qc_weight q)))))))"
proof -
  define batch where "batch = fst (test_rag_system query test_cases rag_system self)"
  define gc where "gc = goals (config self) ! i"
  define qc where "qc = gc_questions gc ! j"
  define gr where "gr = er_goals result ! i"
  define qr where "qr = gr_questions gr ! j"
  have tree: "list_all2 (goal_ok (produces mf d batch self) self') (goals (config self)) (er_goals result)"
    using evaluate_facts[OF run] by (simp add: batch_def)
  have li: "i < length (er_goals result)" using tree i by (simp add: list_all2_lengthD)
  have gok: "goal_ok (produces mf d batch self) self' gc gr"
    using tree i by (simp add: gc_def gr_def list_all2_nthD)
  then have qs: "list_all2 (question_ok (produces mf d batch self) self') (gc_questions gc) (gr_questions gr)"
    by (simp add: goal_ok_def)
  have lj: "j < length (gr_questions gr)" using qs j by (simp add: gc_def list_all2_lengthD)
  have qok: "question_ok (produces mf d batch self) self' qc qr"
    using qs j by (simp add: qc_def qr_def gc_def list_all2_nthD)
  have qr: "qr = \<lparr>qr_question_text = qc_text qc, qr_metrics = [], qr_weight = qc_weight qc\<rparr>"
    using question_ok_no_metrics[OF qok] none by (simp add: qc_def gc_def)
  have score: "QuestionResult_score qr = Inr (PyFloat 0)" by (simp add: qr QuestionResult_score_def)
  have doc: "i < length (list_field ''goals'' doc) \<and>
            j < length (list_field ''questions'' (list_field ''goals'' doc ! i)) \<and>
            list_field ''questions'' (list_field ''goals'' doc ! i) ! j =
              JObj [(''text'', JStr (qc_text qc)), (''score'', JNum (PyFloat 0)),
                    (''weight'', JNum (PyFloat (qc_weight qc))), (''metrics'', JList [])]"
    if "to_dict result = Inr doc" for doc
  proof -
    from to_dict_Inr[OF that] obtain s gds where
      gds: "map goal_to_dict (er_goals result) = map Inr gds"
      and deq: "doc = JObj [(''overall_score'', JNum s), (''goals'', JList gds)]" by blast
    have g1: "i < length gds \<and> goal_to_dict gr = Inr (gds ! i)"
      using map_Inr_nth[OF gds li] by (simp add: gr_def)
    then obtain s' qds where qds: "map question_to_dict (gr_questions gr) = map Inr qds"
      and geq: "gds ! i = JObj [(''name'', JStr (gr_goal_name gr)), (''score'', JNum s'),
                        (''weight'', JNum (PyFloat (gr_weight gr))), (''questions'', JList qds)]"
      using goal_to_dict_Inr[of gr "gds ! i"] by auto
    have q1: "j < length qds \<and> question_to_dict qr = Inr (qds ! j)"
      using map_Inr_nth[OF qds lj] by (simp add: qr_def)
    then have "qds ! j = JObj [(''text'', JStr (qc_text qc)), (''score'', JNum (PyFloat 0)),
                    (''weight'', JNum (PyFloat (qc_weight qc))), (''metrics'', JList [])]"
      by (simp add: question_to_dict_def qr QuestionResult_score_def)
    then show ?thesis using g1 q1 by (simp add: deq geq list_field_def)
  qed
  have avg: "scores ! j = PyFloat 0 \<and>
            GoalResult_score gr = Inr (number_average (zip scores (map qc_weight (gc_questions gc)))) \<and>
            (list_all finite_number scores \<longrightarrow>
               (\<exists>np. GoalResult_score gr =
                  Inr (Number np (Finite
                    ((\<Sum>(s, q)\<leftarrow>zip scores (gc_questions gc). number_real s * qc_weight q) /
                     (\<Sum>q\<leftarrow>gc_questions gc. qc_weight q))))))"
    if sc: "map QuestionResult_score (gr_questions gr) = map Inr scores"
      and pos: "0 < (\<Sum>q\<leftarrow>gc_questions gc. qc_weight q)" for scores
  proof -
    have w: "map qr_weight (gr_questions gr) = map qc_weight (gc_questions gc)"
      using goal_ok_weights[OF gok] .
    have "QuestionResult_score qr = Inr (scores ! j)"
      using map_Inr_nth[OF sc lj] by (simp add: qr_def)
    then have z: "scores ! j = PyFloat 0" using score by simp
    have ne: "gr_questions gr \<noteq> []" using lj by auto
    have len: "length scores = length (map qc_weight (gc_questions gc))"
      using sc w by (metis length_map)
    have snd: "map snd (zip scores (map qc_weight (gc_questions gc))) = map qc_weight (gc_questions gc)"
      using len by simp
    have g: "GoalResult_score gr = Inr (number_average (zip scores (map qc_weight (gc_questions gc))))"
      unfolding GoalResult_score_defined[OF sc] using ne pos w by simp
    have fin: "\<exists>np. GoalResult_score gr =
                  Inr (Number np (Finite
                    ((\<Sum>(s, q)\<leftarrow>zip scores (gc_questions gc). number_real s * qc_weight q) /
                     (\<Sum>q\<leftarrow>gc_questions gc. qc_weight q))))"
      if all: "list_all finite_number scores"
    proof -
      have f: "list_all (finite_number \<circ> fst) (zip scores (map qc_weight (gc_questions gc)))"
        using all by (auto simp: list_all_iff dest: set_zip_leftD)
      have nz: "sum_list (map snd (zip scores (map qc_weight (gc_questions gc)))) \<noteq> 0"
        unfolding snd using pos by simp
      have e: "(\<Sum>(s, q)\<leftarrow>zip scores (gc_questions gc). number_real s * qc_weight q) =
               (\<Sum>(s, w)\<leftarrow>zip scores (map qc_weight (gc_questions gc)). number_real s * w)"
        by (rule sum_zip_map)
      show ?thesis
        unfolding g number_average_finite[OF f nz] snd e by blast
    qed
    show ?thesis using z g fin by blast
  qed
  show ?thesis
    unfolding gc_def[symmetric] qc_def[symmetric] gr_def[symmetric] qr_def[symmetric]
    using li lj qr score doc avg by blast
qed

theorem question_without_metrics_kept_witness:
  "fst (evaluate example_metrics False example_query example_test_cases example_rag_system
          (GQMFramework_init empty_question_config)) = Inr empty_question_result \<and>
   qc_metrics (gc_questions (goals (config (GQMFramework_init empty_question_config)) ! 0) ! 1) = [] \<and>
   gr_questions (er_goals empty_question_result ! 0) ! 1 =
     \<lparr>qr_question_text = ''Q2'', qr_metrics = [], qr_weight = 3\<rparr> \<and>
   to_dict empty_question_result = Inr empty_question_document \<and>
   list_field ''questions'' (list_field ''goals'' empty_question_document ! 0) ! 1 =
     JObj [(''text'', JStr ''Q2''), (''score'', JNum (PyFloat 0)), (''weight'', JNum (PyFloat 3)),
           (''metrics'', JList [])] \<and>
   GoalResult_score (er_goals empty_question_result ! 0) = Inr (PyFloat ((0.8 * 1 + 0 * 3) / (1 + 3)))"
proof -
  let ?s = "GQMFramework_init empty_question_config"
  let ?run = "evaluate example_metrics False example_query example_test_cases example_rag_system ?s"
  have run: "?run = (Inr empty_question_result, snd ?run)"
    using empty_question_run by (simp add: prod_eq_iff)
  have i: "0 < length (goals (config ?s))"
    by (simp add: GQMFramework_init_def empty_question_config_def)
  have j: "1 < length (gc_questions (goals (config ?s) ! 0))"
    by (simp add: GQMFramework_init_def empty_question_config_def)
  have none: "qc_metrics (gc_questions (goals (config ?s) ! 0) ! 1) = []"
    by (simp add: GQMFramework_init_def empty_question_config_def)
  note t = question_without_metrics_kept[OF run i j none]
  have sc: "map QuestionResult_score (gr_questions (er_goals empty_question_result ! 0)) =
              map Inr [PyFloat 0.8, PyFloat 0]"
    by (simp add: empty_question_result_def score_defs)
  have pos: "0 < (\<Sum>q\<leftarrow>gc_questions (goals (config ?s) ! 0). qc_weight q)"
    by (simp add: GQMFramework_init_def empty_question_config_def)
  from t have q: "gr_questions (er_goals empty_question_result ! 0) ! 1 =
           \<lparr>qr_question_text = qc_text (gc_questions (goals (config ?s) ! 0) ! 1),
            qr_metrics = [],
            qr_weight = qc_weight (gc_questions (goals (config ?s) ! 0) ! 1)\<rparr>"
    by blast
  from t empty_question_to_dict
  have d: "list_field ''questions'' (list_field ''goals'' empty_question_document ! 0) ! 1 =
              JObj [(''text'', JStr (qc_text (gc_questions (goals (config ?s) ! 0) ! 1))),
                    (''score'', JNum (PyFloat 0)),
                    (''weight'', JNum (PyFloat (qc_weight (gc_questions (goals (config ?s) ! 0) ! 1)))),
                    (''metrics'', JList [])]"
    by blast
  from t sc pos
  have g: "GoalResult_score (er_goals empty_question_result ! 0) =
              Inr (number_average (zip [PyFloat 0.8, PyFloat 0]
                     (map qc_weight (gc_questions (goals (config ?s) ! 0)))))"
    by blast
  show ?thesis
    using empty_question_run none q d g empty_question_to_dict
    by (simp add: GQMFramework_init_def empty_question_config_def number_average_def
        py_sum_def num_add_def times_weight_def)
qed

end
